theory Spec2Isabelle
  imports Main
begin

section \<open>JavaScript values used by the sources\<close>

text \<open>
  A JavaScript string is modelled as a \<^typ>\<open>string\<close> whose characters are the UTF-16 code
  units below 256 (Latin-1). Every key of the feature dataset, every template and every
  pattern of the sources is ASCII.
\<close>

subsection \<open>Strings\<close>

definition toLowerChar :: "char \<Rightarrow> char" where
  \<comment> \<open>\<open>String.prototype.toLowerCase\<close> on one code unit: A-Z and the Latin-1 capitals
      U+00C0..U+00DE (without the multiplication sign U+00D7) move up by 32.\<close>
  "toLowerChar c =
     (let n = (of_char c :: nat)
      in if (65 \<le> n \<and> n \<le> 90) \<or> (192 \<le> n \<and> n \<le> 222 \<and> n \<noteq> 215)
         then char_of (n + 32) else c)"

definition toLowerCase :: "string \<Rightarrow> string" where
  "toLowerCase s = map toLowerChar s"

definition unchangedByToUpperCase :: "char \<Rightarrow> bool" where
  \<comment> \<open>\<open>c === c.toUpperCase()\<close> for a one-unit string \<open>c\<close>: false exactly for the
      code units that have an upper-case form of their own: a-z, the Latin-1 small letters
      U+00DF..U+00FF (without the division sign U+00F7) and the micro sign U+00B5.\<close>
  "unchangedByToUpperCase c =
     (let n = (of_char c :: nat)
      in \<not> ((97 \<le> n \<and> n \<le> 122) \<or> (223 \<le> n \<and> n \<le> 255 \<and> n \<noteq> 247) \<or> n = 181))"

fun startsWith :: "string \<Rightarrow> string \<Rightarrow> bool" where
  \<comment> \<open>\<open>s.startsWith(p)\<close>\<close>
  "startsWith s [] = True"
| "startsWith [] (p # ps) = False"
| "startsWith (c # cs) (p # ps) = (c = p \<and> startsWith cs ps)"

fun includesStr :: "string \<Rightarrow> string \<Rightarrow> bool" where
  \<comment> \<open>\<open>s.includes(p)\<close>: \<open>p\<close> starts at some index of \<open>s\<close>\<close>
  "includesStr [] p = startsWith [] p"
| "includesStr (c # cs) p = (startsWith (c # cs) p \<or> includesStr cs p)"

fun replaceFirst :: "string \<Rightarrow> string \<Rightarrow> string \<Rightarrow> string" where
  \<comment> \<open>\<open>s.replace(p, r)\<close> for a string pattern \<open>p\<close> and a replacement \<open>r\<close> without
      \<open>$\<close>: the first occurrence only\<close>
  "replaceFirst [] p r = (if startsWith [] p then r else [])"
| "replaceFirst (c # cs) p r =
     (if startsWith (c # cs) p then r @ drop (length p) (c # cs)
      else c # replaceFirst cs p r)"

definition underscoresToHyphens :: "string \<Rightarrow> string" where
  \<comment> \<open>\<open>s.replace(/_/g, '-')\<close>\<close>
  "underscoresToHyphens s = map (\<lambda>c. if c = CHR ''_'' then CHR ''-'' else c) s"

fun splitOn :: "string \<Rightarrow> string \<Rightarrow> string \<Rightarrow> string list" where
  \<comment> \<open>\<open>s.split(sep)\<close> for a non-empty separator; the second argument is the piece
      collected so far\<close>
  "splitOn sep acc [] = [acc]"
| "splitOn sep acc (c # cs) =
     (if startsWith (c # cs) sep
      then acc # splitOn sep [] (drop (length sep - 1) cs)
      else splitOn sep (acc @ [c]) cs)"

fun joinWith :: "string \<Rightarrow> string list \<Rightarrow> string" where
  \<comment> \<open>\<open>parts.join(sep)\<close>\<close>
  "joinWith sep [] = []"
| "joinWith sep [p] = p"
| "joinWith sep (p # q # ps) = p @ sep @ joinWith sep (q # ps)"

definition truthy :: "string option \<Rightarrow> string option" where
  \<comment> \<open>\<open>v || null\<close>, and the test \<open>if (v)\<close>, for \<open>v\<close> a string or \<open>undefined\<close>:
      \<open>undefined\<close> and the empty string are falsy\<close>
  "truthy v = (case v of None \<Rightarrow> None | Some s \<Rightarrow> if s = [] then None else Some s)"

subsection \<open>Maps\<close>

text \<open>
  A JavaScript \<open>Map\<close> keeps its keys in insertion order; \<open>set\<close> on a key that is present
  replaces the value where it stands.
\<close>

type_synonym ('k, 'v) js_map = "('k \<times> 'v) list"

fun map_get :: "('k, 'v) js_map \<Rightarrow> 'k \<Rightarrow> 'v option" where
  "map_get [] k = None"
| "map_get ((k', v) # m) k = (if k' = k then Some v else map_get m k)"

fun map_set :: "('k, 'v) js_map \<Rightarrow> 'k \<Rightarrow> 'v \<Rightarrow> ('k, 'v) js_map" where
  "map_set [] k v = [(k, v)]"
| "map_set ((k', v') # m) k v = (if k' = k then (k, v) # m else (k', v') # map_set m k v)"

subsection \<open>Regular expressions\<close>

text \<open>
  A fragment of \<open>RegExp\<close>: literal characters (case-insensitive under the \<open>i\<close> flag),
  the classes \<open>\w\<close> and \<open>\s\<close>, the dot, sequence, alternation, the greedy quantifiers
  \<open>*\<close>, \<open>+\<close> and \<open>?\<close>, and one capture group. The matcher is the backtracking
  matcher of the language: it returns every way to match at the start of the input, best
  first, as the rest of the input and the text of group 1.
\<close>

datatype rx =
    EmptyRx
  | Chr char
  | ChrI char
  | WordC
  | SpaceC
  | Seq rx rx
  | Alt rx rx
  | Star rx
  | Plus rx
  | Cap rx
  | AnyC
  | Opt rx

definition isWordChar :: "char \<Rightarrow> bool" where
  \<comment> \<open>\<open>\w\<close> is \<open>[A-Za-z0-9_]\<close>\<close>
  "isWordChar c =
     (let n = (of_char c :: nat)
      in (65 \<le> n \<and> n \<le> 90) \<or> (97 \<le> n \<and> n \<le> 122) \<or> (48 \<le> n \<and> n \<le> 57) \<or> n = 95)"

definition isSpaceChar :: "char \<Rightarrow> bool" where
  \<comment> \<open>\<open>\s\<close> below 256: tab, line feed, vertical tab, form feed, carriage return, space,
      no-break space\<close>
  "isSpaceChar c =
     (let n = (of_char c :: nat) in (9 \<le> n \<and> n \<le> 13) \<or> n = 32 \<or> n = 160)"

type_synonym mstate = "string \<times> string option"

definition one_char :: "(char \<Rightarrow> bool) \<Rightarrow> mstate \<Rightarrow> mstate list" where
  "one_char p st = (case fst st of [] \<Rightarrow> [] | c # cs \<Rightarrow> if p c then [(cs, snd st)] else [])"

primrec star_iter :: "(mstate \<Rightarrow> mstate list) \<Rightarrow> nat \<Rightarrow> mstate \<Rightarrow> mstate list" where
  \<comment> \<open>greedy repetition: one more round first (a round that consumes nothing is
      rejected, as the language does), then stopping here; the input's length bounds the
      number of rounds\<close>
  "star_iter f 0 st = [st]"
| "star_iter f (Suc n) st =
     concat (map (star_iter f n)
                 (filter (\<lambda>st'. length (fst st') < length (fst st)) (f st))) @ [st]"

primrec rx_match :: "rx \<Rightarrow> mstate \<Rightarrow> mstate list" where
  "rx_match EmptyRx st = [st]"
| "rx_match (Chr c) st = one_char (\<lambda>x. x = c) st"
| "rx_match (ChrI c) st = one_char (\<lambda>x. toLowerChar x = toLowerChar c) st"
| "rx_match WordC st = one_char isWordChar st"
| "rx_match SpaceC st = one_char isSpaceChar st"
| "rx_match (Seq a b) st = concat (map (rx_match b) (rx_match a st))"
| "rx_match (Alt a b) st = rx_match a st @ rx_match b st"
| "rx_match (Star a) st = star_iter (rx_match a) (length (fst st)) st"
| "rx_match (Plus a) st =
     concat (map (\<lambda>st'. star_iter (rx_match a) (length (fst st')) st') (rx_match a st))"
| "rx_match (Cap a) st =
     map (\<lambda>st'. (fst st', Some (take (length (fst st) - length (fst st')) (fst st))))
         (rx_match a st)"
| "rx_match AnyC st = one_char (\<lambda>x. x \<noteq> CHR 0x0A \<and> x \<noteq> CHR 0x0D) st"
| "rx_match (Opt a) st =
     filter (\<lambda>st'. length (fst st') < length (fst st)) (rx_match a st) @ [st]"

fun rx_exec :: "rx \<Rightarrow> string \<Rightarrow> mstate option" where
  \<comment> \<open>\<open>r.exec(s)\<close> for a regular expression without the \<open>g\<close> or \<open>y\<close> flag: the best
      match at the leftmost index that has one\<close>
  "rx_exec r [] = (case rx_match r ([], None) of [] \<Rightarrow> None | m # _ \<Rightarrow> Some m)"
| "rx_exec r (c # cs) =
     (case rx_match r (c # cs, None) of [] \<Rightarrow> rx_exec r cs | m # _ \<Rightarrow> Some m)"

definition rx_test :: "rx \<Rightarrow> string \<Rightarrow> bool" where
  \<comment> \<open>\<open>r.test(s)\<close>\<close>
  "rx_test r s = (rx_exec r s \<noteq> None)"

definition rx_group1 :: "rx \<Rightarrow> string \<Rightarrow> string option" where
  \<comment> \<open>\<open>s.match(r)\<close> and then \<open>[1]\<close>, when the match is not \<open>null\<close>\<close>
  "rx_group1 r s = (case rx_exec r s of None \<Rightarrow> None | Some m \<Rightarrow> snd m)"

fun lit :: "string \<Rightarrow> rx" where
  \<comment> \<open>a run of literal characters\<close>
  "lit [] = EmptyRx"
| "lit (c # cs) = Seq (Chr c) (lit cs)"

fun litI :: "string \<Rightarrow> rx" where
  \<comment> \<open>a run of literal characters under the \<open>i\<close> flag\<close>
  "litI [] = EmptyRx"
| "litI (c # cs) = Seq (ChrI c) (litI cs)"

fun setSpread :: "'a list \<Rightarrow> 'a list \<Rightarrow> 'a list" where
  \<comment> \<open>\<open>[...new Set(xs)]\<close>: the elements in the order of their first occurrence; the
      first argument is the set built so far\<close>
  "setSpread seen [] = seen"
| "setSpread seen (x # xs) = setSpread (if x \<in> set seen then seen else seen @ [x]) xs"

section \<open>The feature dataset\<close>

text \<open>
  \<open>Object.entries(features)\<close> of the \<open>web-features\<close> package is a list of pairs of a
  feature id and its entry, in the order of enumeration. Of an entry the sources read
  \<open>name\<close>, \<open>status.baseline\<close> and \<open>compat_features\<close>. A field that is absent is
  \<open>None\<close>; \<open>baseline\<close> is \<open>None\<close> also when the entry has no \<open>status\<close>.
\<close>

datatype BaselineStatus = High | Low | NotBaseline

record feature_entry =
  entry_name :: "string option"
  baseline :: "BaselineStatus option"
  compat_features :: "string list option"

type_synonym dataset = "(string \<times> feature_entry) list"

datatype error =
    TypeError
  | SyntaxError
  | FileSystemError string
  | FileSizeError string int int
  | ParsingError string

fun forEachE :: "('a \<Rightarrow> 's \<Rightarrow> error + 's) \<Rightarrow> 'a list \<Rightarrow> 's \<Rightarrow> error + 's" where
  \<comment> \<open>\<open>xs.forEach(f)\<close> for a callback that updates a local variable and may throw\<close>
  "forEachE f [] s = Inr s"
| "forEachE f (x # xs) s = (case f x s of Inl e \<Rightarrow> Inl e | Inr s' \<Rightarrow> forEachE f xs s')"

fun forEachS :: "('a \<Rightarrow> 's \<Rightarrow> 's \<times> error option) \<Rightarrow> 'a list \<Rightarrow> 's \<Rightarrow> 's \<times> error option" where
  \<comment> \<open>\<open>xs.forEach(f)\<close> for a callback that changes an object and may throw: the
      result is the object as the loop leaves it, and what was thrown\<close>
  "forEachS f [] s = (s, None)"
| "forEachS f (x # xs) s =
     (case f x s of (s', Some e) \<Rightarrow> (s', Some e) | (s', None) \<Rightarrow> forEachS f xs s')"

section \<open>The feature mapper (\<open>src/utils/web-features-mapper.ts\<close>)\<close>

record FeatureMapping =
  cssProperties :: "(string, string) js_map"
  cssSelectors :: "(string, string) js_map"
  cssAtRules :: "(string, string) js_map"
  jsAPIs :: "(string, string) js_map"
  jsConstructors :: "(string, string) js_map"
  htmlElements :: "(string, string) js_map"
  htmlAttributes :: "(string, string) js_map"

datatype confidence = ConfHigh | ConfMedium | ConfLow

text \<open>The optional \<open>validator\<close> of an enhanced mapping is never set nor read.\<close>

record EnhancedMapping =
  compatFeature :: string
  confidence :: confidence
  pattern :: "rx option"

record WebFeaturesMapper =
  mappings :: FeatureMapping
  enhancedMappings :: "(string, EnhancedMapping list) js_map"
  initialized :: bool

definition newWebFeaturesMapper :: WebFeaturesMapper where
  \<comment> \<open>the constructor and the field initialisers\<close>
  "newWebFeaturesMapper =
     \<lparr> mappings = \<lparr> cssProperties = [], cssSelectors = [], cssAtRules = [], jsAPIs = [],
                     jsConstructors = [], htmlElements = [], htmlAttributes = [] \<rparr>,
       enhancedMappings = [],
       initialized = False \<rparr>"

definition withCompatFeatures ::
  "(string \<Rightarrow> string \<Rightarrow> FeatureMapping \<Rightarrow> FeatureMapping \<times> error option) \<Rightarrow> dataset \<Rightarrow>
   FeatureMapping \<Rightarrow> FeatureMapping \<times> error option" where
  \<comment> \<open>the loop shared by the three table builders: every entry that has a truthy
      \<open>compat_features\<close>, and every compat feature of it, in order\<close>
  "withCompatFeatures f ds =
     forEachS (\<lambda>(featureId, feature).
                 case compat_features feature of
                   None \<Rightarrow> (\<lambda>fm. (fm, None))
                 | Some cfs \<Rightarrow> forEachS (\<lambda>cf. f featureId cf) cfs) ds"

definition cssStep :: "string \<Rightarrow> string \<Rightarrow> FeatureMapping \<Rightarrow> FeatureMapping \<times> error option" where
  "cssStep featureId cf fm =
     (let fm1 = (if startsWith cf ''css.properties.''
                 then fm\<lparr>cssProperties :=
                        map_set (cssProperties fm)
                          (underscoresToHyphens (replaceFirst cf ''css.properties.'' []))
                          featureId\<rparr>
                 else fm);
          fm2 = (if startsWith cf ''css.selectors.''
                 then fm1\<lparr>cssSelectors :=
                        map_set (cssSelectors fm1)
                          (replaceFirst cf ''css.selectors.'' []) featureId\<rparr>
                 else fm1);
          fm3 = (if startsWith cf ''css.at-rules.''
                 then fm2\<lparr>cssAtRules :=
                        map_set (cssAtRules fm2)
                          (underscoresToHyphens (replaceFirst cf ''css.at-rules.'' []))
                          featureId\<rparr>
                 else fm2)
      in (fm3, None))"

definition buildCSSMappings :: "dataset \<Rightarrow> FeatureMapping \<Rightarrow> FeatureMapping \<times> error option" where
  "buildCSSMappings = withCompatFeatures cssStep"

definition jsStep :: "string \<Rightarrow> string \<Rightarrow> FeatureMapping \<Rightarrow> FeatureMapping \<times> error option" where
  \<comment> \<open>\<open>apiPath[0].toUpperCase()\<close> throws a \<open>TypeError\<close> when \<open>apiPath\<close> is empty\<close>
  "jsStep featureId cf fm =
     (if startsWith cf ''api.''
      then let apiPath = replaceFirst cf ''api.'' []
           in if \<not> includesStr apiPath ''.''
              then (case apiPath of
                      [] \<Rightarrow> (fm, Some TypeError)
                    | c # _ \<Rightarrow>
                        if unchangedByToUpperCase c
                        then (fm\<lparr>jsConstructors := map_set (jsConstructors fm) apiPath featureId\<rparr>,
                              None)
                        else (fm\<lparr>jsAPIs := map_set (jsAPIs fm) apiPath featureId\<rparr>, None))
              else let parts = splitOn ''.'' [] apiPath
                   in if length parts \<ge> 2
                      then let objectName = toLowerCase (hd parts);
                               memberName = toLowerCase (joinWith ''.'' (tl parts));
                               fullPath = objectName @ ''.'' @ memberName
                           in (fm\<lparr>jsAPIs :=
                                 map_set (map_set (jsAPIs fm) fullPath featureId)
                                         memberName featureId\<rparr>, None)
                      else (fm, None)
      else (fm, None))"

definition buildJSMappings :: "dataset \<Rightarrow> FeatureMapping \<Rightarrow> FeatureMapping \<times> error option" where
  "buildJSMappings = withCompatFeatures jsStep"

definition htmlStep :: "string \<Rightarrow> string \<Rightarrow> FeatureMapping \<Rightarrow> FeatureMapping \<times> error option" where
  "htmlStep featureId cf fm =
     (let fm1 = (if startsWith cf ''html.elements.''
                 then fm\<lparr>htmlElements :=
                        map_set (htmlElements fm)
                          (replaceFirst cf ''html.elements.'' []) featureId\<rparr>
                 else fm);
          fm2 = (if startsWith cf ''html.global_attributes.''
                 then fm1\<lparr>htmlAttributes :=
                        map_set (htmlAttributes fm1)
                          (replaceFirst cf ''html.global_attributes.'' []) featureId\<rparr>
                 else fm1);
          fm3 = (if includesStr cf ''.attributes.''
                 then case splitOn ''.attributes.'' [] cf of
                        [_, attribute] \<Rightarrow>
                          fm2\<lparr>htmlAttributes := map_set (htmlAttributes fm2) attribute featureId\<rparr>
                      | _ \<Rightarrow> fm2
                 else fm2)
      in (fm3, None))"

definition buildHTMLMappings :: "dataset \<Rightarrow> FeatureMapping \<Rightarrow> FeatureMapping \<times> error option" where
  "buildHTMLMappings = withCompatFeatures htmlStep"

definition highConfidence :: "string \<Rightarrow> rx \<Rightarrow> EnhancedMapping list" where
  "highConfidence f r = [\<lparr> compatFeature = f, confidence = ConfHigh, pattern = Some r \<rparr>]"

definition buildEnhancedMappings ::
  "(string, EnhancedMapping list) js_map \<Rightarrow> (string, EnhancedMapping list) js_map" where
  "buildEnhancedMappings em =
     (let em1 = map_set em '':has('' (highConfidence ''css-has'' (lit '':has(''));
          em2 = map_set em1 ''::backdrop'' (highConfidence ''dialog'' (lit ''::backdrop''));
          em3 = map_set em2 ''@container''
                  (highConfidence ''css-container-queries'' (lit ''@container''));
          em4 = map_set em3 ''IntersectionObserver''
                  (highConfidence ''intersectionobserver''
                     (Seq (lit ''new'') (Seq (Plus SpaceC) (lit ''IntersectionObserver''))));
          em5 = map_set em4 ''ResizeObserver''
                  (highConfidence ''resizeobserver''
                     (Seq (lit ''new'') (Seq (Plus SpaceC) (lit ''ResizeObserver''))));
          em6 = map_set em5 ''fetch(''
                  (highConfidence ''fetch''
                     (Seq (lit ''fetch'') (Seq (Star SpaceC) (Chr CHR ''(''))));
          em7 = map_set em6 ''<dialog'' (highConfidence ''dialog'' (litI ''<dialog''));
          em8 = map_set em7 ''<details'' (highConfidence ''details'' (litI ''<details''))
      in em8)"

definition onMappings ::
  "(FeatureMapping \<Rightarrow> FeatureMapping \<times> error option) \<Rightarrow> WebFeaturesMapper \<Rightarrow>
   WebFeaturesMapper \<times> error option" where
  "onMappings build m = (case build (mappings m) of (fm, e) \<Rightarrow> (m\<lparr>mappings := fm\<rparr>, e))"

definition initSteps :: "(dataset \<Rightarrow> WebFeaturesMapper \<Rightarrow> WebFeaturesMapper \<times> error option) list" where
  \<comment> \<open>the four calls that \<open>initialize\<close> awaits, in order\<close>
  "initSteps =
     [\<lambda>ds. onMappings (buildCSSMappings ds),
      \<lambda>ds. onMappings (buildJSMappings ds),
      \<lambda>ds. onMappings (buildHTMLMappings ds),
      \<lambda>ds m. (m\<lparr>enhancedMappings := buildEnhancedMappings (enhancedMappings m)\<rparr>, None)]"

definition initialize :: "dataset \<Rightarrow> WebFeaturesMapper \<Rightarrow> WebFeaturesMapper \<times> error option" where
  \<comment> \<open>the body of \<open>initialize\<close> run to its end without another job in between: the
      mapper as it is left, and what was thrown\<close>
  "initialize ds m =
     (if initialized m then (m, None)
      else case forEachS (\<lambda>step. step ds) initSteps m of
             (m', Some e) \<Rightarrow> (m', Some e)
           | (m', None) \<Rightarrow> (m'\<lparr>initialized := True\<rparr>, None))"

subsection \<open>The mapping queries\<close>

text \<open>
  A query returns its result together with the lines it writes with \<open>console.warn\<close>.
  \<open>null\<close> is \<open>None\<close>.
\<close>

definition vendorPrefix :: rx where
  \<comment> \<open>\<open>/^-(?:webkit|moz|ms|o)-/\<close> behind its anchor\<close>
  "vendorPrefix =
     Seq (Chr CHR ''-'')
       (Seq (Alt (lit ''webkit'') (Alt (lit ''moz'') (Alt (lit ''ms'') (lit ''o''))))
            (Chr CHR ''-''))"

definition removeAtStart :: "rx \<Rightarrow> string \<Rightarrow> string" where
  \<comment> \<open>\<open>s.replace(/^r/, '')\<close>: without the \<open>m\<close> flag the anchor admits a match at index 0
      only, and what is left is the text behind the match\<close>
  "removeAtStart r s = (case rx_match r (s, None) of [] \<Rightarrow> s | m # _ \<Rightarrow> fst m)"

definition mapCSSProperty :: "WebFeaturesMapper \<Rightarrow> string \<Rightarrow> string option \<times> string list" where
  "mapCSSProperty m property =
     (if \<not> initialized m then (None, [''WebFeaturesMapper not initialized''])
      else case truthy (map_get (cssProperties (mappings m)) property) of
             Some directMatch \<Rightarrow> (Some directMatch, [])
           | None \<Rightarrow>
               (let unprefixed = removeAtStart vendorPrefix property
                in (truthy (map_get (cssProperties (mappings m)) unprefixed), [])))"

definition patternTests :: "string \<Rightarrow> EnhancedMapping \<Rightarrow> bool" where
  \<comment> \<open>\<open>mapping.pattern && mapping.pattern.test(s)\<close>\<close>
  "patternTests s mapping = (case pattern mapping of None \<Rightarrow> False | Some r \<Rightarrow> rx_test r s)"

definition mapCSSSelector :: "WebFeaturesMapper \<Rightarrow> string \<Rightarrow> string list \<times> string list" where
  "mapCSSSelector m selector =
     (if \<not> initialized m then ([], [])
      else let enhanced = concat (map (\<lambda>(key, ms). map compatFeature (filter (patternTests selector) ms))
                                       (enhancedMappings m));
               direct = (case truthy (map_get (cssSelectors (mappings m)) selector) of
                           None \<Rightarrow> [] | Some directMatch \<Rightarrow> [directMatch])
           in (setSpread [] (enhanced @ direct), []))"

definition mapCSSAtRule :: "WebFeaturesMapper \<Rightarrow> string \<Rightarrow> string option \<times> string list" where
  "mapCSSAtRule m atRule =
     (if \<not> initialized m then (None, [])
      else case map_get (enhancedMappings m) (''@'' @ atRule) of
             Some (e # _) \<Rightarrow> (Some (compatFeature e), [])
           | _ \<Rightarrow> (truthy (map_get (cssAtRules (mappings m)) atRule), []))"

definition findEnhancedJSMapping :: "WebFeaturesMapper \<Rightarrow> string \<Rightarrow> string option" where
  "findEnhancedJSMapping m jsCode =
     (case filter (patternTests jsCode) (concat (map snd (enhancedMappings m))) of
        [] \<Rightarrow> None
      | mapping # _ \<Rightarrow> Some (compatFeature mapping))"

definition mapJSProperty :: "WebFeaturesMapper \<Rightarrow> string \<Rightarrow> string option \<times> string list" where
  "mapJSProperty m propertyAccess =
     (if \<not> initialized m then (None, [])
      else case truthy (map_get (jsAPIs (mappings m)) (toLowerCase propertyAccess)) of
             Some directMatch \<Rightarrow> (Some directMatch, [])
           | None \<Rightarrow> (findEnhancedJSMapping m propertyAccess, []))"

definition methodCallRx :: rx where
  \<comment> \<open>\<open>/(\w+(?:\.\w+)*)\s*\(/\<close>\<close>
  "methodCallRx =
     Seq (Cap (Seq (Plus WordC) (Star (Seq (Chr CHR ''.'') (Plus WordC)))))
         (Seq (Star SpaceC) (Chr CHR ''(''))"

definition mapJSMethod :: "WebFeaturesMapper \<Rightarrow> string \<Rightarrow> string option \<times> string list" where
  "mapJSMethod m methodCall =
     (if \<not> initialized m then (None, [])
      else case (case rx_group1 methodCallRx methodCall of
                   None \<Rightarrow> None
                 | Some g \<Rightarrow> truthy (map_get (jsAPIs (mappings m)) (toLowerCase g))) of
             Some directMatch \<Rightarrow> (Some directMatch, [])
           | None \<Rightarrow> (findEnhancedJSMapping m methodCall, []))"

definition constructorRx :: rx where
  \<comment> \<open>\<open>/new\s+(\w+)/\<close>\<close>
  "constructorRx = Seq (lit ''new'') (Seq (Plus SpaceC) (Cap (Plus WordC)))"

definition mapJSConstructor :: "WebFeaturesMapper \<Rightarrow> string \<Rightarrow> string option \<times> string list" where
  "mapJSConstructor m constructor =
     (if \<not> initialized m then (None, [])
      else case (case rx_group1 constructorRx constructor of
                   None \<Rightarrow> None
                 | Some constructorName \<Rightarrow>
                     truthy (map_get (jsConstructors (mappings m)) constructorName)) of
             Some directMatch \<Rightarrow> (Some directMatch, [])
           | None \<Rightarrow> (findEnhancedJSMapping m constructor, []))"

definition mapHTMLElement :: "WebFeaturesMapper \<Rightarrow> string \<Rightarrow> string option \<times> string list" where
  "mapHTMLElement m element =
     (if \<not> initialized m then (None, [])
      else case truthy (map_get (htmlElements (mappings m)) (toLowerCase element)) of
             Some directMatch \<Rightarrow> (Some directMatch, [])
           | None \<Rightarrow>
               (case map_get (enhancedMappings m) (''<'' @ toLowerCase element) of
                  Some (e # _) \<Rightarrow> (Some (compatFeature e), [])
                | _ \<Rightarrow> (None, [])))"

definition mapHTMLAttribute :: "WebFeaturesMapper \<Rightarrow> string \<Rightarrow> string option \<times> string list" where
  "mapHTMLAttribute m attribute =
     (if \<not> initialized m then (None, [])
      else (truthy (map_get (htmlAttributes (mappings m)) (toLowerCase attribute)), []))"

section \<open>The dataset index and the key patterns (\<open>utils/index.ts\<close>)\<close>

text \<open>
  The records of the index have the fields \<open>status\<close>, \<open>featureName\<close> and \<open>featureId\<close>;
  the first is \<open>indexStatus\<close> here.
\<close>

record index_record =
  indexStatus :: BaselineStatus
  featureName :: string
  featureId :: string

type_synonym compat_index = "(string, index_record) js_map"

definition indexStep :: "string \<times> feature_entry \<Rightarrow> compat_index \<Rightarrow> compat_index" where
  \<comment> \<open>the callback of \<open>Object.entries(features).forEach\<close>; \<open>if (status)\<close> holds for
      \<open>'high'\<close> and \<open>'low'\<close>, not for \<open>false\<close> or \<open>undefined\<close>\<close>
  "indexStep e idx =
     (case e of (fid, feature) \<Rightarrow>
        (case baseline feature of
           None \<Rightarrow> idx
         | Some NotBaseline \<Rightarrow> idx
         | Some st \<Rightarrow>
             (let r = \<lparr> indexStatus = st,
                        featureName = (case truthy (entry_name feature) of
                                         Some n \<Rightarrow> n | None \<Rightarrow> fid),
                        featureId = fid \<rparr>;
                  idx1 = map_set idx fid r
              in case compat_features feature of
                   None \<Rightarrow> idx1
                 | Some cfs \<Rightarrow> fold (\<lambda>cf i. map_set i cf r) cfs idx1)))"

definition getCompatFeaturesIndex ::
  "dataset \<Rightarrow> compat_index option \<Rightarrow> compat_index \<times> compat_index option" where
  \<comment> \<open>the second argument and the second result are the module's variable
      \<open>compatFeaturesIndex\<close> before and after the call\<close>
  "getCompatFeaturesIndex features cache =
     (case cache of
        Some idx \<Rightarrow> (idx, cache)
      | None \<Rightarrow> (let idx = fold indexStep features [] in (idx, Some idx)))"

definition checkBaselineStatus :: "compat_index \<Rightarrow> string \<Rightarrow> BaselineStatus" where
  \<comment> \<open>the first argument is what \<open>getCompatFeaturesIndex()\<close> returns\<close>
  "checkBaselineStatus idx featureIdOrCompat =
     (case map_get idx featureIdOrCompat of Some m \<Rightarrow> indexStatus m | None \<Rightarrow> NotBaseline)"

definition CSS_PATTERN_TEMPLATES :: "string list" where
  "CSS_PATTERN_TEMPLATES =
     [''css.properties.${property}'',
      ''css.properties.${property}.${value}'',
      ''css.properties.display.${value}'',
      ''css.at-rules.${property}'',
      ''css.at-rules.${property}.${value}'',
      ''css.selectors.${property}'',
      ''css.selectors.${property}.${value}'',
      ''css.types.${property}'',
      ''css.types.${property}.${value}'']"

fun expandReplacement :: "string \<Rightarrow> string \<Rightarrow> string \<Rightarrow> string \<Rightarrow> string" where
  \<comment> \<open>the replacement text of \<open>String.prototype.replace\<close> for a match without groups:
      \<open>$$\<close> is a dollar, \<open>$&\<close> the match, \<open>$`\<close> the text before it, \<open>$'\<close> the text
      after it; any other dollar stands for itself\<close>
  "expandReplacement matched pre post [] = []"
| "expandReplacement matched pre post [c] = [c]"
| "expandReplacement matched pre post (c # d # cs) =
     (if c = CHR ''$'' \<and> d = CHR ''$'' then CHR ''$'' # expandReplacement matched pre post cs
      else if c = CHR ''$'' \<and> d = CHR ''&'' then matched @ expandReplacement matched pre post cs
      else if c = CHR ''$'' \<and> d = CHR 0x60 then pre @ expandReplacement matched pre post cs
      else if c = CHR ''$'' \<and> d = CHR 0x27 then post @ expandReplacement matched pre post cs
      else c # expandReplacement matched pre post (d # cs))"

text \<open>
  \<open>generatePatterns\<close> builds, for every key of the substitution record, the regular
  expression \<open>new RegExp('\\$\\{' + key + '\\}', 'g')\<close>: the key is part of the source of
  the expression. A key is read here when it is made of characters that stand for
  themselves, the dot, \<open>|\<close>, groups in parentheses and the greedy quantifiers \<open>*\<close>,
  \<open>+\<close>, \<open>?\<close>. A key with a backslash, \<open>[\<close>, \<open>{\<close>, \<open>^\<close> or \<open>$\<close>, with \<open>(?\<close>, or with
  a quantifier followed by \<open>?\<close>, is beyond this fragment: of such a key nothing is said
  (\<open>Beyond\<close>).
\<close>

datatype 'a result = Returned 'a | Thrown error | Beyond

fun forEachR :: "('a \<Rightarrow> 's \<Rightarrow> 's result) \<Rightarrow> 'a list \<Rightarrow> 's \<Rightarrow> 's result" where
  \<comment> \<open>\<open>xs.forEach(f)\<close> for a callback that updates a local variable\<close>
  "forEachR f [] s = Returned s"
| "forEachR f (x # xs) s =
     (case f x s of Returned s' \<Rightarrow> forEachR f xs s' | Thrown e \<Rightarrow> Thrown e | Beyond \<Rightarrow> Beyond)"

fun mapR :: "('a \<Rightarrow> 'b result) \<Rightarrow> 'a list \<Rightarrow> 'b list result" where
  \<comment> \<open>\<open>xs.map(f)\<close>\<close>
  "mapR f [] = Returned []"
| "mapR f (x # xs) =
     (case f x of
        Returned y \<Rightarrow>
          (case mapR f xs of
             Returned ys \<Rightarrow> Returned (y # ys) | Thrown e \<Rightarrow> Thrown e | Beyond \<Rightarrow> Beyond)
      | Thrown e \<Rightarrow> Thrown e
      | Beyond \<Rightarrow> Beyond)"

datatype tok = TChar char | TDot | TBar | TOpen | TClose | TStar | TPlus | TQuest

definition tokOf :: "char \<Rightarrow> tok" where
  "tokOf c =
     (if c = CHR ''.'' then TDot else if c = CHR ''|'' then TBar
      else if c = CHR ''('' then TOpen else if c = CHR '')'' then TClose
      else if c = CHR ''*'' then TStar else if c = CHR ''+'' then TPlus
      else if c = CHR ''?'' then TQuest else TChar c)"

fun lazyOrSpecifier :: "string \<Rightarrow> bool" where
  \<comment> \<open>a \<open>?\<close> directly behind \<open>(\<close> or behind a quantifier\<close>
  "lazyOrSpecifier (a # b # cs) =
     ((b = CHR ''?'' \<and> a \<in> set ''(*+?'') \<or> lazyOrSpecifier (b # cs))"
| "lazyOrSpecifier cs = False"

definition tokensOfKey :: "string \<Rightarrow> tok list option" where
  "tokensOfKey key =
     (if list_ex (\<lambda>c. c \<in> set [CHR 0x5C, CHR ''['', CHR ''{'', CHR ''^'', CHR ''$'']) key
         \<or> lazyOrSpecifier key
      then None else Some (map tokOf key))"

text \<open>
  The parser keeps one frame for every group that is open, the innermost first, and one for
  the whole expression: the alternatives that are complete, the terms of the alternative
  that is being read (both the latest first), and whether a quantifier may follow.
\<close>

type_synonym frame = "rx list \<times> rx list \<times> bool"

definition seqOf :: "rx list \<Rightarrow> rx" where
  "seqOf cur = foldl (\<lambda>acc t. Seq t acc) EmptyRx cur"

definition altOf :: "frame \<Rightarrow> rx" where
  "altOf f = (case f of (alts, cur, q) \<Rightarrow> foldl (\<lambda>acc a. Alt a acc) (seqOf cur) alts)"

definition quantify :: "(rx \<Rightarrow> rx) \<Rightarrow> frame list \<Rightarrow> error + frame list" where
  \<comment> \<open>a quantifier: \<open>SyntaxError\<close> (nothing to repeat) at the start of an alternative and
      behind another quantifier\<close>
  "quantify q fs =
     (case fs of
        (alts, t # ts, True) # rest \<Rightarrow> Inr ((alts, q t # ts, False) # rest)
      | _ \<Rightarrow> Inl SyntaxError)"

definition parseStep :: "tok \<Rightarrow> frame list \<Rightarrow> error + frame list" where
  "parseStep t fs =
     (case fs of
        [] \<Rightarrow> Inl SyntaxError
      | (alts, cur, q) # rest \<Rightarrow>
          (case t of
             TChar c \<Rightarrow> Inr ((alts, Chr c # cur, True) # rest)
           | TDot \<Rightarrow> Inr ((alts, AnyC # cur, True) # rest)
           | TBar \<Rightarrow> Inr ((seqOf cur # alts, [], False) # rest)
           | TOpen \<Rightarrow> Inr (([], [], False) # fs)
           | TClose \<Rightarrow>
               (case rest of
                  [] \<Rightarrow> Inl SyntaxError
                | (alts', cur', q') # rest' \<Rightarrow>
                    Inr ((alts', altOf (alts, cur, q) # cur', True) # rest'))
           | TStar \<Rightarrow> quantify Star fs
           | TPlus \<Rightarrow> quantify Plus fs
           | TQuest \<Rightarrow> quantify Opt fs))"

definition parseTokens :: "tok list \<Rightarrow> error + rx" where
  \<comment> \<open>\<open>SyntaxError\<close> also for a group that is not closed\<close>
  "parseTokens ts =
     (case forEachE parseStep ts [([], [], False)] of
        Inl e \<Rightarrow> Inl e
      | Inr [f] \<Rightarrow> Inr (altOf f)
      | Inr _ \<Rightarrow> Inl SyntaxError)"

definition compileKey :: "string \<Rightarrow> rx result" where
  \<comment> \<open>\<open>new RegExp('\\$\\{' + key + '\\}', 'g')\<close>\<close>
  "compileKey key =
     (case tokensOfKey key of
        None \<Rightarrow> Beyond
      | Some ts \<Rightarrow>
          (case parseTokens ([TChar CHR ''$'', TChar CHR ''{''] @ ts @ [TChar CHR ''}'']) of
             Inl e \<Rightarrow> Thrown e
           | Inr r \<Rightarrow> Returned r))"

function replaceAllRx :: "rx \<Rightarrow> string \<Rightarrow> string \<Rightarrow> string \<Rightarrow> string" where
  \<comment> \<open>\<open>s.replace(r, value)\<close> for \<open>r\<close> with the \<open>g\<close> flag; the third argument is the
      part of \<open>s\<close> already passed. Behind a match the search goes on at the end of the
      match, and behind an empty match one character further.\<close>
  "replaceAllRx r v pre [] =
     (case rx_match r ([], None) of [] \<Rightarrow> [] | m # _ \<Rightarrow> expandReplacement [] pre [] v)"
| "replaceAllRx r v pre (c # cs) =
     (case rx_match r (c # cs, None) of
        [] \<Rightarrow> c # replaceAllRx r v (pre @ [c]) cs
      | m # _ \<Rightarrow>
          (let k = length (c # cs) - length (fst m)
           in if k = 0
              then expandReplacement [] pre (c # cs) v @ c # replaceAllRx r v (pre @ [c]) cs
              else expandReplacement (take k (c # cs)) pre (drop k (c # cs)) v
                   @ replaceAllRx r v (pre @ take k (c # cs)) (drop k (c # cs))))"
  by pat_completeness auto
termination
  by (relation "measure (\<lambda>(r, v, pre, s). length s)") auto

fun dollarDigit :: "string \<Rightarrow> bool" where
  \<comment> \<open>a \<open>$\<close> directly before a digit\<close>
  "dollarDigit (a # b # cs) =
     ((a = CHR ''$'' \<and> b \<in> set ''0123456789'') \<or> dollarDigit (b # cs))"
| "dollarDigit cs = False"

definition replaceKey :: "string \<Rightarrow> string \<Rightarrow> string \<Rightarrow> string result" where
  \<comment> \<open>\<open>pattern.replace(new RegExp('\\$\\{' + key + '\\}', 'g'), value)\<close>. The text of the
      groups is not kept, so a value that refers to a group is beyond the fragment.\<close>
  "replaceKey key v p =
     (case compileKey key of
        Beyond \<Rightarrow> Beyond
      | Thrown e \<Rightarrow> Thrown e
      | Returned r \<Rightarrow>
          if CHR ''('' \<in> set key \<and> dollarDigit v then Beyond
          else Returned (replaceAllRx r v [] p))"

definition generatePatternsWith ::
  "(string \<Rightarrow> string \<Rightarrow> string \<Rightarrow> string result) \<Rightarrow> string list \<Rightarrow>
   (string \<times> string) list \<Rightarrow> string list result" where
  \<comment> \<open>\<open>generatePatterns\<close> over the engine's \<open>replace\<close>: \<open>repl key value pattern\<close> is
      \<open>pattern.replace(new RegExp('\\$\\{' + key + '\\}', 'g'), value)\<close>. The third argument
      is \<open>Object.entries(replacements)\<close>.\<close>
  "generatePatternsWith repl templates replacements =
     (case mapR (\<lambda>template. forEachR (\<lambda>(key, v) p. repl key v p) replacements template)
                templates of
        Returned ps \<Rightarrow>
          Returned (filter (\<lambda>p. \<not> includesStr p ''${'' \<and> \<not> includesStr p ''undefined'') ps)
      | Thrown e \<Rightarrow> Thrown e
      | Beyond \<Rightarrow> Beyond)"

definition generatePatterns :: "string list \<Rightarrow> (string \<times> string) list \<Rightarrow> string list result" where
  "generatePatterns = generatePatternsWith replaceKey"

section \<open>Results of a file (\<open>utils/parsers.ts\<close>)\<close>

text \<open>
  A detected feature has the fields \<open>name\<close>, \<open>type\<close>, \<open>line\<close>, \<open>column\<close>, \<open>context\<close>
  and \<open>confidence\<close>; those that a result has too, or that are words of the prover, carry
  a prefix here.
\<close>

datatype language = CSS | JS | HTML

record DetectedFeature =
  name :: string
  lang :: language
  detectedLine :: nat
  detectedColumn :: nat
  contextText :: string
  detectedConfidence :: confidence

text \<open>
  The severity of a result is \<open>'error'\<close>, \<open>'warn'\<close> or \<open>'info'\<close>, or what
  \<open>applyConfigRules\<close> writes there for a name that \<open>Object.prototype\<close> has: the member of
  that name.
\<close>

datatype severity = SevError | SevWarn | SevInfo | SevInherited string

record FeatureResult =
  feature :: string
  status :: BaselineStatus
  severity :: severity
  line :: nat
  column :: nat
  message :: string
  fixable :: bool

definition convertToFeatureResult :: "compat_index \<Rightarrow> DetectedFeature \<Rightarrow> FeatureResult" where
  "convertToFeatureResult idx detectedFeature =
     (let baselineStatus = checkBaselineStatus idx (name detectedFeature);
          st = (case baselineStatus of High \<Rightarrow> High | Low \<Rightarrow> Low | NotBaseline \<Rightarrow> NotBaseline);
          sev = (if st = NotBaseline then SevError else if st = Low then SevWarn else SevInfo)
      in \<lparr> feature = name detectedFeature,
           status = st,
           severity = sev,
           line = detectedLine detectedFeature,
           column = detectedColumn detectedFeature,
           message = contextText detectedFeature @ '' - '' @ name detectedFeature @ '' is ''
                     @ (if st = High then ''fully baseline''
                        else if st = Low then ''newly baseline'' else ''not baseline''),
           fixable = False \<rparr>)"

text \<open>
  The file system is a map from paths to files; a file that cannot be read has no content.
  The walkers of \<open>language-server.ts\<close> are a parameter: \<open>walk l content path\<close> is the
  list of features that \<open>parseCSS\<close>, \<open>parseJS\<close> or \<open>parseHTML\<close> of the language server
  detects, or the message of what it throws.
\<close>

record file_node =
  size :: int
  content :: "string option"

type_synonym file_system = "string \<Rightarrow> file_node option"
type_synonym walker = "language \<Rightarrow> string \<Rightarrow> string \<Rightarrow> string + DetectedFeature list"

definition MAX_FILE_SIZE :: int where
  "MAX_FILE_SIZE = 10 * 1024 * 1024"

definition parseWith ::
  "language \<Rightarrow> file_system \<Rightarrow> walker \<Rightarrow> compat_index \<Rightarrow> string \<Rightarrow> error + FeatureResult list" where
  \<comment> \<open>the common body of \<open>parseCSS\<close>, \<open>parseJS\<close> and \<open>parseHTML\<close>: the two input errors
      are thrown on, anything else thrown becomes a \<open>ParsingError\<close>\<close>
  "parseWith l fs walk idx filePath =
     (case fs filePath of
        None \<Rightarrow> Inl (FileSystemError filePath)
      | Some f \<Rightarrow>
          if size f > MAX_FILE_SIZE then Inl (FileSizeError filePath (size f) MAX_FILE_SIZE)
          else (case content f of
                  None \<Rightarrow> Inl (ParsingError filePath)
                | Some text \<Rightarrow>
                    (case walk l text filePath of
                       Inl msg \<Rightarrow> Inl (ParsingError filePath)
                     | Inr features \<Rightarrow> Inr (map (convertToFeatureResult idx) features))))"

definition parseCSS :: "file_system \<Rightarrow> walker \<Rightarrow> compat_index \<Rightarrow> string \<Rightarrow> error + FeatureResult list" where
  "parseCSS = parseWith CSS"

definition parseJS :: "file_system \<Rightarrow> walker \<Rightarrow> compat_index \<Rightarrow> string \<Rightarrow> error + FeatureResult list" where
  "parseJS = parseWith JS"

definition parseHTML :: "file_system \<Rightarrow> walker \<Rightarrow> compat_index \<Rightarrow> string \<Rightarrow> error + FeatureResult list" where
  "parseHTML = parseWith HTML"

definition parseFile :: "file_system \<Rightarrow> walker \<Rightarrow> compat_index \<Rightarrow> string \<Rightarrow> error + FeatureResult list" where
  "parseFile fs walk idx filePath =
     (let extension = toLowerCase (last (splitOn ''.'' [] filePath))
      in if extension \<in> set [''css'', ''scss'', ''sass'', ''less''] then parseCSS fs walk idx filePath
         else if extension \<in> set [''js'', ''ts'', ''jsx'', ''tsx''] then parseJS fs walk idx filePath
         else if extension \<in> set [''html'', ''htm''] then parseHTML fs walk idx filePath
         else Inr [])"

section \<open>The check command (\<open>commands/check.ts\<close>)\<close>

datatype rule = RuleError | RuleWarn | RuleOff

record BaselineConfig =
  strict :: bool
  targetsBaseline :: BaselineStatus
  rules :: "string \<Rightarrow> rule option"

definition objectPrototypeMembers :: "string list" where
  \<comment> \<open>the members of \<open>Object.prototype\<close>, which every plain object has: functions, and
      the prototype itself under \<open>__proto__\<close>; all are truthy and none is a string\<close>
  "objectPrototypeMembers =
     [''constructor'', ''hasOwnProperty'', ''isPrototypeOf'', ''propertyIsEnumerable'',
      ''toLocaleString'', ''toString'', ''valueOf'', ''__defineGetter__'', ''__defineSetter__'',
      ''__lookupGetter__'', ''__lookupSetter__'', ''__proto__'']"

datatype rule_value = Own rule | Inherited string

definition rulesLookup :: "BaselineConfig \<Rightarrow> string \<Rightarrow> rule_value option" where
  \<comment> \<open>\<open>config.rules[k]\<close>: \<open>rules\<close> holds the properties of the object itself\<close>
  "rulesLookup config k =
     (case rules config k of
        Some r \<Rightarrow> Some (Own r)
      | None \<Rightarrow> if k \<in> set objectPrototypeMembers then Some (Inherited k) else None)"

definition applyConfigRules :: "FeatureResult list \<Rightarrow> BaselineConfig \<Rightarrow> FeatureResult list" where
  \<comment> \<open>\<open>map\<close> to the result or \<open>null\<close>, then \<open>filter\<close> the \<open>null\<close>s out\<close>
  "applyConfigRules features config =
     List.map_filter
       (\<lambda>f. case rulesLookup config (feature f) of
               Some (Own RuleOff) \<Rightarrow> None
             | Some (Own RuleError) \<Rightarrow> Some (f\<lparr>severity := SevError\<rparr>)
             | Some (Own RuleWarn) \<Rightarrow> Some (f\<lparr>severity := SevWarn\<rparr>)
             | Some (Inherited n) \<Rightarrow> Some (f\<lparr>severity := SevInherited n\<rparr>)
             | None \<Rightarrow> Some f)
       features"

definition applyTargetBaseline :: "FeatureResult list \<Rightarrow> BaselineStatus \<Rightarrow> FeatureResult list" where
  "applyTargetBaseline features targetBaseline =
     (if targetBaseline = Low
      then map (\<lambda>f. if status f = Low \<and> severity f = SevWarn then f\<lparr>severity := SevInfo\<rparr> else f)
               features
      else features)"

record BaselineResult =
  checkedFile :: string
  features :: "FeatureResult list"
  errors :: nat
  warnings :: nat
  passed :: bool

fun checkFiles ::
  "(string \<Rightarrow> error + FeatureResult list) \<Rightarrow> BaselineConfig \<Rightarrow> bool \<Rightarrow> string list \<Rightarrow>
   BaselineResult list \<Rightarrow> error \<times> BaselineResult list + BaselineResult list" where
  \<comment> \<open>the \<open>for\<close> loop of \<open>execute\<close> over \<open>filesToCheck\<close>, from some index on; the last
      argument is \<open>results\<close> so far. What \<open>parseFile\<close> throws leaves the loop, with the
      results pushed until then.\<close>
  "checkFiles parse config optStrict [] results = Inr results"
| "checkFiles parse config optStrict (f # fs) results =
     (case parse f of
        Inl e \<Rightarrow> Inl (e, results)
      | Inr parsed \<Rightarrow>
          (let fs1 = applyConfigRules parsed config;
               fs2 = applyTargetBaseline fs1 (targetsBaseline config);
               nerrors = length (filter (\<lambda>x. severity x = SevError) fs2);
               nwarnings = length (filter (\<lambda>x. severity x = SevWarn) fs2);
               result = \<lparr> checkedFile = f, features = fs2, errors = nerrors, warnings = nwarnings,
                          passed = (nerrors = 0 \<and> (if optStrict then nwarnings = 0 else True)) \<rparr>
           in checkFiles parse config optStrict fs (results @ [result])))"

datatype run_outcome =
    Failed error
  | Reported "BaselineResult list" nat

definition execute ::
  "(string \<Rightarrow> error + FeatureResult list) \<Rightarrow> BaselineConfig \<Rightarrow> bool \<Rightarrow> string list \<Rightarrow>
   run_outcome" where
  \<comment> \<open>\<open>execute\<close> from the loop on, for a non-empty \<open>filesToCheck\<close>: either the
      \<open>catch\<close> of the whole body prints the error and exits with code 1, or the results of
      all files are reported and the exit code is 1 when there are errors, or warnings in
      strict mode\<close>
  "execute parse config optStrict filesToCheck =
     (case checkFiles parse config optStrict filesToCheck [] of
        Inl (e, _) \<Rightarrow> Failed e
      | Inr results \<Rightarrow>
          (let totalErrors = sum_list (map errors results);
               totalWarnings = sum_list (map warnings results)
           in Reported results
                (if totalErrors > 0 \<or> (optStrict \<and> totalWarnings > 0) then 1 else 0)))"

section \<open>The singleton factory \<open>getWebFeaturesMapper\<close> and the job queue\<close>

text \<open>
  A call of an \<open>async\<close> function runs to its first \<open>await\<close>. Awaiting a promise that is
  settled appends the rest of the function to the queue of jobs; a promise that settles
  later appends the functions that wait for it at that moment. The jobs run one after the
  other, first in, first out. The three table builders and \<open>buildEnhancedMappings\<close> are
  \<open>async\<close> functions without an \<open>await\<close>: a call runs to its end.

  A caller is a function that does \<open>await getWebFeaturesMapper()\<close> and then looks at the
  \<open>initialized\<close> flag of what it got. Callers are numbered.
\<close>

datatype reception = Got bool | Threw error

datatype job =
    InitResume nat nat "error option"
      \<comment> \<open>\<open>initialize\<close>, called for this caller, behind its await of this number (from 1),
          with what the awaited builder threw\<close>
  | FactoryResume nat "error option"
      \<comment> \<open>\<open>getWebFeaturesMapper\<close> of this caller behind \<open>await mapperInstance.initialize()\<close>\<close>
  | CallerResume nat "error option"
      \<comment> \<open>this caller behind \<open>await getWebFeaturesMapper()\<close>\<close>

record world =
  mapperInstance :: "WebFeaturesMapper option"
  initializeRuns :: nat
  jobs :: "job list"
  receivedBy :: "(nat \<times> reception) list"

definition world0 :: world where
  "world0 = \<lparr> mapperInstance = None, initializeRuns = 0, jobs = [], receivedBy = [] \<rparr>"

definition enqueue :: "job \<Rightarrow> world \<Rightarrow> world" where
  "enqueue j w = w\<lparr>jobs := jobs w @ [j]\<rparr>"

definition runInitStep :: "dataset \<Rightarrow> nat \<Rightarrow> nat \<Rightarrow> WebFeaturesMapper \<Rightarrow> world \<Rightarrow> world" where
  \<comment> \<open>\<open>initialize\<close> from its builder number \<open>k\<close> (from 0) to the next await, or to its
      end when no builder is left\<close>
  "runInitStep ds caller k m w =
     (case drop k initSteps of
        [] \<Rightarrow> enqueue (FactoryResume caller None)
                (w\<lparr>mapperInstance := Some (m\<lparr>initialized := True\<rparr>)\<rparr>)
      | step # _ \<Rightarrow>
          (case step ds m of
             (m', e) \<Rightarrow> enqueue (InitResume caller (Suc k) e) (w\<lparr>mapperInstance := Some m'\<rparr>)))"

definition callFactory :: "dataset \<Rightarrow> nat \<Rightarrow> world \<Rightarrow> world" where
  \<comment> \<open>the call \<open>getWebFeaturesMapper()\<close> of a caller, and the caller's await of it\<close>
  "callFactory ds caller w =
     (case mapperInstance w of
        None \<Rightarrow>
          (let m = newWebFeaturesMapper
           in if initialized m then enqueue (FactoryResume caller None) (w\<lparr>mapperInstance := Some m\<rparr>)
              else runInitStep ds caller 0 m (w\<lparr>initializeRuns := Suc (initializeRuns w)\<rparr>))
      | Some m \<Rightarrow> enqueue (CallerResume caller None) w)"

definition runJob :: "dataset \<Rightarrow> job \<Rightarrow> world \<Rightarrow> world" where
  "runJob ds j w =
     (case j of
        InitResume caller k (Some e) \<Rightarrow> enqueue (FactoryResume caller (Some e)) w
      | InitResume caller k None \<Rightarrow>
          (case mapperInstance w of
             None \<Rightarrow> w
           | Some m \<Rightarrow> runInitStep ds caller k m w)
      | FactoryResume caller e \<Rightarrow> enqueue (CallerResume caller e) w
      | CallerResume caller (Some e) \<Rightarrow> w\<lparr>receivedBy := receivedBy w @ [(caller, Threw e)]\<rparr>
      | CallerResume caller None \<Rightarrow>
          (case mapperInstance w of
             None \<Rightarrow> w
           | Some m \<Rightarrow> w\<lparr>receivedBy := receivedBy w @ [(caller, Got (initialized m))]\<rparr>))"

fun drain :: "dataset \<Rightarrow> nat \<Rightarrow> world \<Rightarrow> world" where
  \<comment> \<open>the queue run for at most so many jobs\<close>
  "drain ds 0 w = w"
| "drain ds (Suc n) w =
     (case jobs w of [] \<Rightarrow> w | j # js \<Rightarrow> drain ds n (runJob ds j (w\<lparr>jobs := js\<rparr>)))"

definition callersInOneJob :: "dataset \<Rightarrow> nat list \<Rightarrow> nat \<Rightarrow> world" where
  \<comment> \<open>the callers started one after the other by one job, then the queue\<close>
  "callersInOneJob ds callers fuel = drain ds fuel (fold (callFactory ds) callers world0)"

section \<open>Notions used to state the properties\<close>

definition vendorPrefixes :: "string list" where
  "vendorPrefixes = [''-webkit-'', ''-moz-'', ''-ms-'', ''-o-'']"

definition hasVendorPrefix :: "string \<Rightarrow> bool" where
  "hasVendorPrefix s = list_ex (startsWith s) vendorPrefixes"

definition regexSyntaxChars :: string where
  \<comment> \<open>the syntax characters of regular expressions: \<open>^ $ \ . * + ? ( ) [ ] { } |\<close>\<close>
  "regexSyntaxChars =
     [CHR ''^'', CHR ''$'', CHR 0x5C, CHR ''.'', CHR ''*'', CHR ''+'', CHR ''?'', CHR ''('',
      CHR '')'', CHR ''['', CHR '']'', CHR ''{'', CHR ''}'', CHR ''|'']"

definition literalKey :: "string \<Rightarrow> bool" where
  \<comment> \<open>a key that stands for itself inside \<open>new RegExp('\\$\\{key\\}', 'g')\<close>\<close>
  "literalKey key = list_all (\<lambda>c. c \<notin> set regexSyntaxChars) key"

definition entryRecord :: "string \<times> feature_entry \<Rightarrow> index_record option" where
  \<comment> \<open>the record of a dataset entry whose baseline status is \<open>'high'\<close> or \<open>'low'\<close>\<close>
  "entryRecord e =
     (case baseline (snd e) of
        None \<Rightarrow> None
      | Some NotBaseline \<Rightarrow> None
      | Some st \<Rightarrow>
          Some \<lparr> indexStatus = st,
                 featureName = (case truthy (entry_name (snd e)) of Some n \<Rightarrow> n | None \<Rightarrow> fst e),
                 featureId = fst e \<rparr>)"

definition entryKeys :: "string \<times> feature_entry \<Rightarrow> string list" where
  \<comment> \<open>the id of an entry and its compat keys\<close>
  "entryKeys e = fst e # (case compat_features (snd e) of None \<Rightarrow> [] | Some cfs \<Rightarrow> cfs)"

definition writesKey :: "string \<Rightarrow> string \<times> feature_entry \<Rightarrow> bool" where
  "writesKey k e = (entryRecord e \<noteq> None \<and> k \<in> set (entryKeys e))"

section \<open>A small dataset\<close>

definition exampleFeatures :: dataset where
  "exampleFeatures =
     [(''container-queries'',
       \<lparr> entry_name = Some ''Container queries'', baseline = Some Low,
         compat_features = Some [''css.at-rules.container'', ''css.properties.container-name''] \<rparr>),
      (''fetch-api'',
       \<lparr> entry_name = Some ''Fetch'', baseline = Some High,
         compat_features = Some [''api.fetch'', ''api.Window.fetch''] \<rparr>),
      (''intersection-observer'',
       \<lparr> entry_name = None, baseline = Some High,
         compat_features = Some [''api.IntersectionObserver''] \<rparr>),
      (''dialog-element'',
       \<lparr> entry_name = Some ''Dialog'', baseline = Some High,
         compat_features = Some [''html.elements.dialog'', ''css.selectors.backdrop'',
                                 ''html.global_attributes.inert''] \<rparr>),
      (''backdrop-filter'',
       \<lparr> entry_name = Some ''backdrop-filter'', baseline = Some Low,
         compat_features = Some [''css.properties.backdrop-filter''] \<rparr>),
      (''anchor-positioning'',
       \<lparr> entry_name = Some ''Anchor positioning'', baseline = Some NotBaseline,
         compat_features = Some [''css.properties.anchor-name''] \<rparr>)]"

definition exampleMapper :: WebFeaturesMapper where
  "exampleMapper = fst (initialize exampleFeatures newWebFeaturesMapper)"

definition exampleIndex :: compat_index where
  "exampleIndex = fst (getCompatFeaturesIndex exampleFeatures None)"

definition detected :: "string \<Rightarrow> DetectedFeature" where
  "detected n = \<lparr> name = n, lang = CSS, detectedLine = 3, detectedColumn = 1,
                  contextText = ''declaration'', detectedConfidence = ConfHigh \<rparr>"

definition exampleFiles :: file_system where
  "exampleFiles p =
     (if p = ''ok.css'' then Some \<lparr> size = 120, content = Some ''a { display: grid }'' \<rparr>
      else if p = ''huge.css'' then Some \<lparr> size = 10485761, content = Some [] \<rparr>
      else None)"

definition exampleWalker :: walker where
  "exampleWalker l text path = Inr [detected ''container-queries'']"

definition exampleConfig :: BaselineConfig where
  "exampleConfig = \<lparr> strict = False, targetsBaseline = High,
                      rules = [''fetch'' \<mapsto> RuleOff, ''css-grid'' \<mapsto> RuleWarn] \<rparr>"

section \<open>Auxiliary facts\<close>

lemma setSpread_distinct: "distinct seen \<Longrightarrow> distinct (setSpread seen xs)"
  by (induction xs arbitrary: seen) auto

lemma setSpread_set: "set (setSpread seen xs) = set seen \<union> set xs"
  by (induction xs arbitrary: seen) auto

lemma map_get_map_set: "map_get (map_set m k v) k' = (if k = k' then Some v else map_get m k')"
  by (induction m) auto

lemma find_append_case:
  "find P (xs @ ys) = (case find P xs of None \<Rightarrow> find P ys | Some x \<Rightarrow> Some x)"
  by (induction xs) auto

lemma startsWith_append:
  "startsWith s (a @ b) = (startsWith s a \<and> startsWith (drop (length a) s) b)"
  by (induction s a rule: startsWith.induct) auto

subsection \<open>The vendor-prefix pattern\<close>

lemma rx_match_lit:
  "rx_match (lit w) (s, cap) = (if startsWith s w then [(drop (length w) s, cap)] else [])"
proof (induction w arbitrary: s)
  case Nil
  then show ?case by simp
next
  case (Cons c w)
  show ?case by (cases s) (auto simp: one_char_def Cons)
qed

lemma rx_match_Chr:
  "rx_match (Chr c) (s, cap) = (if startsWith s [c] then [(drop 1 s, cap)] else [])"
  by (cases s) (auto simp: one_char_def)

lemma rx_match_lit_fun:
  "rx_match (lit w) =
     (\<lambda>st. if startsWith (fst st) w then [(drop (length w) (fst st), snd st)] else [])"
  by (auto simp: fun_eq_iff rx_match_lit simp del: lit.simps)

lemma rx_match_Chr_fun:
  "rx_match (Chr c) =
     (\<lambda>st. if startsWith (fst st) [c] then [(drop 1 (fst st), snd st)] else [])"
  by (auto simp: fun_eq_iff rx_match_Chr simp del: rx_match.simps)

lemma vendorPrefix_matches:
  "(rx_match vendorPrefix (s, None) \<noteq> []) = hasVendorPrefix s"
proof -
  have w: "startsWith s ''-webkit-'' =
             (startsWith s ''-'' \<and> startsWith (drop (length ''-'') s) ''webkit''
              \<and> startsWith (drop (length ''webkit'') (drop (length ''-'') s)) ''-'')"
    using startsWith_append [of s "''-''" "''webkit-''"]
      startsWith_append [of "drop (length ''-'') s" "''webkit''" "''-''"] by simp
  have m: "startsWith s ''-moz-'' =
             (startsWith s ''-'' \<and> startsWith (drop (length ''-'') s) ''moz''
              \<and> startsWith (drop (length ''moz'') (drop (length ''-'') s)) ''-'')"
    using startsWith_append [of s "''-''" "''moz-''"]
      startsWith_append [of "drop (length ''-'') s" "''moz''" "''-''"] by simp
  have ms: "startsWith s ''-ms-'' =
             (startsWith s ''-'' \<and> startsWith (drop (length ''-'') s) ''ms''
              \<and> startsWith (drop (length ''ms'') (drop (length ''-'') s)) ''-'')"
    using startsWith_append [of s "''-''" "''ms-''"]
      startsWith_append [of "drop (length ''-'') s" "''ms''" "''-''"] by simp
  have o: "startsWith s ''-o-'' =
             (startsWith s ''-'' \<and> startsWith (drop (length ''-'') s) ''o''
              \<and> startsWith (drop (length ''o'') (drop (length ''-'') s)) ''-'')"
    using startsWith_append [of s "''-''" "''o-''"]
      startsWith_append [of "drop (length ''-'') s" "''o''" "''-''"] by simp
  have seq_if: "\<And>f c x. concat (map f (if c then [x] else [])) = (if c then f x else [])"
    by simp
  have e: "rx_match vendorPrefix (s, None) =
     (if startsWith s ''-'' then
        (if startsWith (drop (length ''-'') s) ''webkit'' then
           (if startsWith (drop (length ''webkit'') (drop (length ''-'') s)) ''-''
            then [(drop 1 (drop (length ''webkit'') (drop (length ''-'') s)), None)] else [])
         else []) @
        (if startsWith (drop (length ''-'') s) ''moz'' then
           (if startsWith (drop (length ''moz'') (drop (length ''-'') s)) ''-''
            then [(drop 1 (drop (length ''moz'') (drop (length ''-'') s)), None)] else [])
         else []) @
        (if startsWith (drop (length ''-'') s) ''ms'' then
           (if startsWith (drop (length ''ms'') (drop (length ''-'') s)) ''-''
            then [(drop 1 (drop (length ''ms'') (drop (length ''-'') s)), None)] else [])
         else []) @
        (if startsWith (drop (length ''-'') s) ''o'' then
           (if startsWith (drop (length ''o'') (drop (length ''-'') s)) ''-''
            then [(drop 1 (drop (length ''o'') (drop (length ''-'') s)), None)] else [])
         else [])
      else [])"
    unfolding vendorPrefix_def
    apply (simp only: rx_match.simps(6,7) rx_match_lit_fun rx_match_Chr_fun seq_if
        map_append concat_append fst_conv snd_conv)
    apply (simp del: lit.simps)
    done
  have h: "hasVendorPrefix s =
     (startsWith s ''-webkit-'' \<or> startsWith s ''-moz-'' \<or> startsWith s ''-ms-'' \<or>
      startsWith s ''-o-'')"
    by (simp add: hasVendorPrefix_def vendorPrefixes_def del: startsWith.simps)
  show ?thesis
    unfolding h e w m ms o by (simp del: startsWith.simps)
qed

lemma removeAtStart_prefixed:
  "pre \<in> set vendorPrefixes \<Longrightarrow> removeAtStart vendorPrefix (pre @ rest) = rest"
  by (auto simp: vendorPrefixes_def removeAtStart_def vendorPrefix_def one_char_def)

lemma removeAtStart_unprefixed:
  "\<not> hasVendorPrefix s \<Longrightarrow> removeAtStart vendorPrefix s = s"
  using vendorPrefix_matches [of s] by (simp add: removeAtStart_def)

subsection \<open>The index\<close>

lemma map_get_fold_set:
  "map_get (fold (\<lambda>cf i. map_set i cf r) cfs idx) k =
     (if k \<in> set cfs then Some r else map_get idx k)"
  by (induction cfs arbitrary: idx) (auto simp: map_get_map_set)

lemma map_get_indexStep:
  "map_get (indexStep e idx) k = (if writesKey k e then entryRecord e else map_get idx k)"
  by (cases e)
     (auto simp: indexStep_def writesKey_def entryRecord_def entryKeys_def Let_def
        map_get_map_set map_get_fold_set split: option.splits BaselineStatus.splits)

lemma map_get_fold_indexStep:
  "map_get (fold indexStep ds idx) k =
     (case find (writesKey k) (rev ds) of None \<Rightarrow> map_get idx k | Some e \<Rightarrow> entryRecord e)"
  by (induction ds arbitrary: idx)
     (auto simp: map_get_indexStep find_append_case split: option.splits)

subsection \<open>The key patterns\<close>

lemma literalKey_tokens: "literalKey key \<Longrightarrow> tokensOfKey key = Some (map TChar key)"
proof -
  assume l: "literalKey key"
  have a: "\<not> list_ex (\<lambda>c. c \<in> set [CHR 0x5C, CHR ''['', CHR ''{'', CHR ''^'', CHR ''$'']) key"
    using l by (auto simp: literalKey_def regexSyntaxChars_def list_all_iff list_ex_iff)
  have q: "CHR ''?'' \<notin> set key"
    using l by (auto simp: literalKey_def regexSyntaxChars_def list_all_iff)
  have b: "\<And>cs. CHR ''?'' \<notin> set cs \<Longrightarrow> \<not> lazyOrSpecifier cs"
  proof -
    fix cs show "CHR ''?'' \<notin> set cs \<Longrightarrow> \<not> lazyOrSpecifier cs"
      by (induction cs rule: lazyOrSpecifier.induct) auto
  qed
  have c: "map tokOf key = map TChar key"
    using l by (auto simp: literalKey_def regexSyntaxChars_def list_all_iff tokOf_def)
  show ?thesis using a b [OF q] c by (simp add: tokensOfKey_def)
qed

lemma parse_chars:
  "\<exists>cur' q'. forEachE parseStep (map TChar xs) ((alts, cur, q) # fs) = Inr ((alts, cur', q') # fs)"
  by (induction xs arbitrary: cur q) (auto simp: parseStep_def)

lemma parseTokens_chars: "\<exists>r. parseTokens (map TChar xs) = Inr r"
  using parse_chars [of xs "[]" "[]" False "[]"] by (auto simp: parseTokens_def)

lemma compileKey_literal: "literalKey key \<Longrightarrow> \<exists>r. compileKey key = Returned r"
proof -
  assume l: "literalKey key"
  have "[TChar CHR ''$'', TChar CHR ''{''] @ map TChar key @ [TChar CHR ''}'']
          = map TChar (''${'' @ key @ ''}'')"
    by simp
  then show ?thesis
    using parseTokens_chars [of "''${'' @ key @ ''}''"] literalKey_tokens [OF l]
    by (auto simp: compileKey_def simp del: map_append list.map)
qed

lemma replaceKey_literal: "literalKey key \<Longrightarrow> \<exists>q. replaceKey key v p = Returned q"
proof -
  assume l: "literalKey key"
  then have "CHR ''('' \<notin> set key"
    by (auto simp: literalKey_def regexSyntaxChars_def list_all_iff)
  then show ?thesis using compileKey_literal [OF l] by (auto simp: replaceKey_def)
qed

lemma forEachR_literal:
  "list_all (\<lambda>(key, v). literalKey key) replacements \<Longrightarrow>
     \<exists>q. forEachR (\<lambda>(key, v) p. replaceKey key v p) replacements p = Returned q"
proof (induction replacements arbitrary: p)
  case Nil
  then show ?case by simp
next
  case (Cons kv replacements)
  obtain key v where kv: "kv = (key, v)" by (cases kv)
  with Cons.prems have "literalKey key" by simp
  then obtain q where "replaceKey key v p = Returned q"
    using replaceKey_literal by blast
  then show ?case using Cons kv by simp
qed

lemma mapR_total:
  "(\<And>x. \<exists>y. f x = Returned y) \<Longrightarrow> \<exists>ys. mapR f xs = Returned ys"
proof (induction xs)
  case Nil
  then show ?case by simp
next
  case (Cons x xs)
  then obtain y ys where "f x = Returned y" "mapR f xs = Returned ys" by metis
  then show ?case by simp
qed

lemma generatePatterns_returns:
  assumes "list_all (\<lambda>(key, v). literalKey key) replacements"
  shows "\<exists>ps. generatePatterns templates replacements = Returned ps"
proof -
  obtain qs where
    "mapR (\<lambda>template. forEachR (\<lambda>(key, v) p. replaceKey key v p) replacements template)
          templates = Returned qs"
    using mapR_total [of "\<lambda>template. forEachR (\<lambda>(key, v) p. replaceKey key v p)
                                          replacements template" templates]
      forEachR_literal [OF assms] by blast
  then show ?thesis by (simp add: generatePatterns_def generatePatternsWith_def)
qed

text \<open>A dot in a key stands for any character, and a key may match the empty text.\<close>

lemma generatePatterns_dot_in_key:
  "generatePatterns [''${axb}.${a.b}''] [(''a.b'', ''v'')] = Returned [''v.v'']"
  by code_simp

lemma generatePatterns_empty_match:
  "generatePatterns [''abc''] [(''||'', ''-'')] = Returned [''-a-b-c-'']"
  by code_simp

subsection \<open>The rules of the configuration\<close>

lemma applyConfigRules_not_off:
  "f \<in> set (applyConfigRules fs config) \<Longrightarrow> rules config (feature f) \<noteq> Some RuleOff"
  by (auto simp: applyConfigRules_def rulesLookup_def List.map_filter_def
        split: option.splits rule.splits rule_value.splits if_splits)

text \<open>
  A result whose name is a member of \<open>Object.prototype\<close> gets that member as its severity,
  also when the configuration has no rule at all.
\<close>

lemma applyConfigRules_inherited_member:
  "map severity
     (applyConfigRules [convertToFeatureResult [] (detected ''constructor'')]
        \<lparr> strict = False, targetsBaseline = High, rules = Map.empty \<rparr>)
     = [SevInherited ''constructor'']"
  by code_simp

lemma applyTargetBaseline_feature:
  "f \<in> set (applyTargetBaseline fs t) \<Longrightarrow> \<exists>g \<in> set fs. feature f = feature g"
  by (auto simp: applyTargetBaseline_def split: if_splits)

subsection \<open>The loop over the files\<close>

lemma checkFiles_first_error:
  "parse f = Inl e \<Longrightarrow> \<forall>g \<in> set pre. \<exists>r. parse g = Inr r \<Longrightarrow>
     \<exists>sofar. checkFiles parse config optStrict (pre @ f # post) results = Inl (e, sofar)"
proof (induction pre arbitrary: results)
  case Nil
  then show ?case by simp
next
  case (Cons g pre)
  then obtain r where "parse g = Inr r" by auto
  then show ?case using Cons by (simp add: Let_def)
qed

lemma execute_first_error:
  "parse f = Inl e \<Longrightarrow> \<forall>g \<in> set pre. \<exists>r. parse g = Inr r \<Longrightarrow>
     execute parse config optStrict (pre @ f # post) = Failed e"
  using checkFiles_first_error [of parse f e pre config optStrict post "[]"]
  by (auto simp: execute_def)

subsection \<open>Queries before initialisation\<close>

lemma uninitialized_no_match:
  assumes "\<not> initialized m"
  shows "fst (mapCSSProperty m s) = None" "fst (mapCSSSelector m s) = []"
    "fst (mapCSSAtRule m s) = None" "fst (mapJSProperty m s) = None"
    "fst (mapJSMethod m s) = None" "fst (mapJSConstructor m s) = None"
    "fst (mapHTMLElement m s) = None" "fst (mapHTMLAttribute m s) = None"
  using assms
  by (simp_all add: mapCSSProperty_def mapCSSSelector_def mapCSSAtRule_def mapJSProperty_def
        mapJSMethod_def mapJSConstructor_def mapHTMLElement_def mapHTMLAttribute_def)

lemma uninitialized_warnings:
  assumes "\<not> initialized m"
  shows "snd (mapCSSProperty m s) = [''WebFeaturesMapper not initialized'']"
    "snd (mapCSSSelector m s) = []"
    "snd (mapCSSAtRule m s) = []" "snd (mapJSProperty m s) = []"
    "snd (mapJSMethod m s) = []" "snd (mapJSConstructor m s) = []"
    "snd (mapHTMLElement m s) = []" "snd (mapHTMLAttribute m s) = []"
  using assms
  by (simp_all add: mapCSSProperty_def mapCSSSelector_def mapCSSAtRule_def mapJSProperty_def
        mapJSMethod_def mapJSConstructor_def mapHTMLElement_def mapHTMLAttribute_def)

section \<open>The order of the lookups (C1)\<close>

text \<open>
  C1, as the sources have it. On an initialised mapper, \<open>mapCSSProperty\<close>, \<open>mapJSProperty\<close>,
  \<open>mapJSMethod\<close>, \<open>mapJSConstructor\<close> and \<open>mapHTMLElement\<close> return the feature id of the
  direct match whenever the direct lookup finds a non-empty id, whatever the enhanced table
  holds; \<open>mapHTMLAttribute\<close> is the direct lookup alone; the list of \<open>mapCSSSelector\<close>
  contains the direct match. \<open>mapCSSAtRule\<close> asks the enhanced table first: when the table
  has a non-empty list under \<open>@\<close> followed by the at-rule's name, the result is the feature
  id of the first entry of that list, and only otherwise the direct at-rule index is used.
\<close>

theorem direct_lookup_order:
  assumes "initialized m"
  shows
   "(truthy (map_get (cssProperties (mappings m)) property) = Some d1 \<longrightarrow>
       fst (mapCSSProperty m property) = Some d1) \<and>
    (truthy (map_get (jsAPIs (mappings m)) (toLowerCase propertyAccess)) = Some d2 \<longrightarrow>
       fst (mapJSProperty m propertyAccess) = Some d2) \<and>
    (rx_group1 methodCallRx methodCall = Some g3 \<and>
     truthy (map_get (jsAPIs (mappings m)) (toLowerCase g3)) = Some d3 \<longrightarrow>
       fst (mapJSMethod m methodCall) = Some d3) \<and>
    (rx_group1 constructorRx constructor = Some g4 \<and>
     truthy (map_get (jsConstructors (mappings m)) g4) = Some d4 \<longrightarrow>
       fst (mapJSConstructor m constructor) = Some d4) \<and>
    (truthy (map_get (htmlElements (mappings m)) (toLowerCase element)) = Some d5 \<longrightarrow>
       fst (mapHTMLElement m element) = Some d5) \<and>
    fst (mapHTMLAttribute m attribute) =
       truthy (map_get (htmlAttributes (mappings m)) (toLowerCase attribute)) \<and>
    (truthy (map_get (cssSelectors (mappings m)) selector) = Some d6 \<longrightarrow>
       d6 \<in> set (fst (mapCSSSelector m selector))) \<and>
    (map_get (enhancedMappings m) (''@'' @ atRule) = Some (e # es) \<longrightarrow>
       fst (mapCSSAtRule m atRule) = Some (compatFeature e)) \<and>
    (map_get (enhancedMappings m) (''@'' @ atRule') = None \<or>
     map_get (enhancedMappings m) (''@'' @ atRule') = Some [] \<longrightarrow>
       fst (mapCSSAtRule m atRule') = truthy (map_get (cssAtRules (mappings m)) atRule'))"
  using assms
  by (auto simp: mapCSSProperty_def mapJSProperty_def mapJSMethod_def mapJSConstructor_def
        mapHTMLElement_def mapHTMLAttribute_def mapCSSSelector_def mapCSSAtRule_def
        Let_def setSpread_set split: option.splits list.splits)

text \<open>
  The theorem at the mapper built from the small dataset. For the call \<open>fetch(url)\<close>, the
  constructor call and the element \<open>dialog\<close> the enhanced table has a match with another
  feature id, and the direct match is returned; for the at-rule \<open>container\<close> the enhanced
  entry is returned, and for \<open>media\<close>, which the enhanced table does not have, the direct
  index is asked.
\<close>

theorem direct_lookup_order_witness:
  "initialized exampleMapper \<and>
   fst (mapCSSProperty exampleMapper ''backdrop-filter'') = Some ''backdrop-filter'' \<and>
   fst (mapJSProperty exampleMapper ''Window.fetch'') = Some ''fetch-api'' \<and>
   findEnhancedJSMapping exampleMapper ''fetch(url)'' = Some ''fetch'' \<and>
   fst (mapJSMethod exampleMapper ''fetch(url)'') = Some ''fetch-api'' \<and>
   findEnhancedJSMapping exampleMapper ''new IntersectionObserver(cb)'' = Some ''intersectionobserver'' \<and>
   fst (mapJSConstructor exampleMapper ''new IntersectionObserver(cb)'') = Some ''intersection-observer'' \<and>
   map_option (map compatFeature) (map_get (enhancedMappings exampleMapper) ''<dialog'') = Some [''dialog''] \<and>
   fst (mapHTMLElement exampleMapper ''DIALOG'') = Some ''dialog-element'' \<and>
   fst (mapHTMLAttribute exampleMapper ''inert'') = Some ''dialog-element'' \<and>
   ''dialog-element'' \<in> set (fst (mapCSSSelector exampleMapper ''backdrop'')) \<and>
   fst (mapCSSAtRule exampleMapper ''container'') = Some ''css-container-queries'' \<and>
   fst (mapCSSAtRule exampleMapper ''media'') = None"
proof -
  have i: "initialized exampleMapper"
    by code_simp
  have h1: "truthy (map_get (cssProperties (mappings exampleMapper)) ''backdrop-filter'')
              = Some ''backdrop-filter''"
    by code_simp
  have h2: "truthy (map_get (jsAPIs (mappings exampleMapper)) (toLowerCase ''Window.fetch''))
              = Some ''fetch-api''"
    by code_simp
  have h3: "rx_group1 methodCallRx ''fetch(url)'' = Some ''fetch'' \<and>
            truthy (map_get (jsAPIs (mappings exampleMapper)) (toLowerCase ''fetch'')) = Some ''fetch-api''"
    by code_simp
  have h4: "rx_group1 constructorRx ''new IntersectionObserver(cb)'' = Some ''IntersectionObserver'' \<and>
            truthy (map_get (jsConstructors (mappings exampleMapper)) ''IntersectionObserver'')
              = Some ''intersection-observer''"
    by code_simp
  have h5: "truthy (map_get (htmlElements (mappings exampleMapper)) (toLowerCase ''DIALOG''))
              = Some ''dialog-element''"
    by code_simp
  have h6: "truthy (map_get (cssSelectors (mappings exampleMapper)) ''backdrop'') = Some ''dialog-element''"
    by code_simp
  have h7: "map_get (enhancedMappings exampleMapper) (''@'' @ ''container'')
              = Some (hd (highConfidence ''css-container-queries'' (lit ''@container'')) # [])"
    by code_simp
  have h8: "map_get (enhancedMappings exampleMapper) (''@'' @ ''media'') = None"
    by code_simp
  have a: "truthy (map_get (htmlAttributes (mappings exampleMapper)) (toLowerCase ''inert''))
              = Some ''dialog-element''"
    by code_simp
  have b: "truthy (map_get (cssAtRules (mappings exampleMapper)) ''media'') = None"
    by code_simp
  have c: "compatFeature (hd (highConfidence ''css-container-queries'' (lit ''@container'')))
              = ''css-container-queries''"
    by (simp add: highConfidence_def)
  have j: "findEnhancedJSMapping exampleMapper ''fetch(url)'' = Some ''fetch''"
    by code_simp
  have k: "findEnhancedJSMapping exampleMapper ''new IntersectionObserver(cb)'' = Some ''intersectionobserver''"
    by code_simp
  have l: "map_option (map compatFeature) (map_get (enhancedMappings exampleMapper) ''<dialog'') = Some [''dialog'']"
    by code_simp
  from direct_lookup_order [OF i, where property = "''backdrop-filter''"
      and ?d1.0 = "''backdrop-filter''" and propertyAccess = "''Window.fetch''"
      and ?d2.0 = "''fetch-api''" and methodCall = "''fetch(url)''" and ?g3.0 = "''fetch''"
      and ?d3.0 = "''fetch-api''" and constructor = "''new IntersectionObserver(cb)''"
      and ?g4.0 = "''IntersectionObserver''" and ?d4.0 = "''intersection-observer''"
      and element = "''DIALOG''" and ?d5.0 = "''dialog-element''" and attribute = "''inert''"
      and selector = "''backdrop''" and ?d6.0 = "''dialog-element''"
      and atRule = "''container''"
      and e = "hd (highConfidence ''css-container-queries'' (lit ''@container''))"
      and es = "[]" and atRule' = "''media''"]
  show ?thesis
    using i h1 h2 h3 h4 h5 h6 h7 h8 a b c j k l by simp
qed

text \<open>
  C1 as it is stated fails for at-rules: the direct at-rule index of the mapper built from
  the small dataset maps \<open>container\<close> to \<open>container-queries\<close>, the enhanced table has an
  entry under \<open>@container\<close> whose pattern matches \<open>@container\<close>, and \<open>mapCSSAtRule\<close>
  returns the feature id of the enhanced entry.
\<close>

theorem mapCSSAtRule_direct_first_counterexample:
  "initialized exampleMapper \<and>
   truthy (map_get (cssAtRules (mappings exampleMapper)) ''container'') = Some ''container-queries'' \<and>
   list_ex (patternTests ''@container'') (concat (map snd (enhancedMappings exampleMapper))) \<and>
   fst (mapCSSAtRule exampleMapper ''container'') = Some ''css-container-queries'' \<and>
   fst (mapCSSAtRule exampleMapper ''container'') \<noteq> Some ''container-queries''"
  by code_simp

section \<open>Vendor prefixes (C2)\<close>

text \<open>
  C2, as the sources have it. For a property name that is one of the prefixes \<open>-webkit-\<close>,
  \<open>-moz-\<close>, \<open>-ms-\<close>, \<open>-o-\<close> followed by a rest, when the prefixed name has no entry in
  the property index, and the rest has a non-empty entry of its own or does not begin with
  one of the four prefixes itself, \<open>mapCSSProperty\<close> of the prefixed name is
  \<open>mapCSSProperty\<close> of the rest.
\<close>

theorem mapCSSProperty_vendor_prefix:
  assumes "pre \<in> set vendorPrefixes"
    and "map_get (cssProperties (mappings m)) (pre @ rest) = None"
    and "truthy (map_get (cssProperties (mappings m)) rest) \<noteq> None \<or> \<not> hasVendorPrefix rest"
  shows "mapCSSProperty m (pre @ rest) = mapCSSProperty m rest"
proof (cases "initialized m")
  case False
  then show ?thesis by (simp add: mapCSSProperty_def)
next
  case True
  have strip: "removeAtStart vendorPrefix (pre @ rest) = rest"
    using assms(1) by (rule removeAtStart_prefixed)
  from assms(3) show ?thesis
  proof
    assume "truthy (map_get (cssProperties (mappings m)) rest) \<noteq> None"
    then show ?thesis using True assms(2) strip
      by (auto simp: mapCSSProperty_def truthy_def)
  next
    assume "\<not> hasVendorPrefix rest"
    then have "removeAtStart vendorPrefix rest = rest"
      by (rule removeAtStart_unprefixed)
    then show ?thesis using True assms(2) strip
      by (auto simp: mapCSSProperty_def truthy_def split: option.splits)
  qed
qed

text \<open>
  The theorem at \<open>-webkit-backdrop-filter\<close> and the mapper built from the small dataset:
  both names resolve to the feature \<open>backdrop-filter\<close>.
\<close>

theorem mapCSSProperty_vendor_prefix_witness:
  "''-webkit-'' \<in> set vendorPrefixes \<and>
   map_get (cssProperties (mappings exampleMapper)) ''-webkit-backdrop-filter'' = None \<and>
   \<not> hasVendorPrefix ''backdrop-filter'' \<and>
   mapCSSProperty exampleMapper ''-webkit-backdrop-filter'' = mapCSSProperty exampleMapper ''backdrop-filter'' \<and>
   mapCSSProperty exampleMapper ''backdrop-filter'' = (Some ''backdrop-filter'', [])"
proof -
  have h1: "''-webkit-'' \<in> set vendorPrefixes"
    by code_simp
  have h2: "map_get (cssProperties (mappings exampleMapper)) (''-webkit-'' @ ''backdrop-filter'') = None"
    by code_simp
  have h3: "\<not> hasVendorPrefix ''backdrop-filter''"
    by code_simp
  have v: "mapCSSProperty exampleMapper ''backdrop-filter'' = (Some ''backdrop-filter'', [])"
    by code_simp
  from h3 have h3':
    "truthy (map_get (cssProperties (mappings exampleMapper)) ''backdrop-filter'') \<noteq> None \<or>
     \<not> hasVendorPrefix ''backdrop-filter''" ..
  from mapCSSProperty_vendor_prefix [OF h1 h2 h3'] show ?thesis
    using h1 h2 h3 v by simp
qed

text \<open>
  C2 as it is stated fails for a name with two prefixes: \<open>-webkit--moz-backdrop-filter\<close>
  has no entry of its own and carries the prefix \<open>-webkit-\<close>; without it the name is
  \<open>-moz-backdrop-filter\<close>. The first resolves to nothing, the second to
  \<open>backdrop-filter\<close>, because only one prefix is removed before the second lookup.
\<close>

theorem mapCSSProperty_vendor_prefix_counterexample:
  "map_get (cssProperties (mappings exampleMapper)) ''-webkit--moz-backdrop-filter'' = None \<and>
   removeAtStart vendorPrefix ''-webkit--moz-backdrop-filter'' = ''-moz-backdrop-filter'' \<and>
   mapCSSProperty exampleMapper ''-webkit--moz-backdrop-filter'' = (None, []) \<and>
   mapCSSProperty exampleMapper ''-moz-backdrop-filter'' = (Some ''backdrop-filter'', [])"
  by code_simp

section \<open>The key patterns are filtered (C3)\<close>

text \<open>
  C3, as the sources have it. For a substitution record whose keys have no syntax character
  of regular expressions, \<open>generatePatterns\<close> returns a list; and for every substitution
  record, whatever the engine's \<open>replace\<close> does with its keys and values, a list that
  \<open>generatePatterns\<close> returns has no string that contains \<open>${\<close> and no string that
  contains \<open>undefined\<close>.
\<close>

theorem generatePatterns_filtered:
  "(list_all (\<lambda>(key, v). literalKey key) replacements \<longrightarrow>
      (\<exists>ps. generatePatterns templates replacements = Returned ps)) \<and>
   (\<forall>ps p. generatePatternsWith repl templates replacements = Returned ps \<and> p \<in> set ps \<longrightarrow>
      \<not> includesStr p ''${'' \<and> \<not> includesStr p ''undefined'')"
  using generatePatterns_returns [of replacements templates]
  by (auto simp: generatePatternsWith_def split: result.splits)

text \<open>
  The theorem at the CSS templates with a value that is the text \<open>undefined\<close>: the four
  templates without the value are left.
\<close>

theorem generatePatterns_filtered_witness:
  "generatePatterns CSS_PATTERN_TEMPLATES [(''property'', ''gap''), (''value'', ''undefined'')]
     = Returned [''css.properties.gap'', ''css.at-rules.gap'', ''css.selectors.gap'', ''css.types.gap''] \<and>
   generatePatterns CSS_PATTERN_TEMPLATES [(''property'', ''${value}''), (''value'', ''${x}'')]
     = Returned [] \<and>
   list_all (\<lambda>(key, v). literalKey key) [(''property'', ''gap''), (''value'', ''undefined'')] \<and>
   \<not> includesStr ''css.properties.gap'' ''${'' \<and> \<not> includesStr ''css.properties.gap'' ''undefined''"
proof -
  have l: "list_all (\<lambda>(key, v). literalKey key) [(''property'', ''gap''), (''value'', ''undefined'')]"
    by code_simp
  have a: "generatePatternsWith replaceKey CSS_PATTERN_TEMPLATES
             [(''property'', ''gap''), (''value'', ''undefined'')]
           = Returned [''css.properties.gap'', ''css.at-rules.gap'', ''css.selectors.gap'', ''css.types.gap'']"
    by code_simp
  have b: "generatePatterns CSS_PATTERN_TEMPLATES [(''property'', ''${value}''), (''value'', ''${x}'')]
           = Returned []"
    by code_simp
  have c: "''css.properties.gap''
           \<in> set [''css.properties.gap'', ''css.at-rules.gap'', ''css.selectors.gap'', ''css.types.gap'']"
    by simp
  from generatePatterns_filtered [where templates = CSS_PATTERN_TEMPLATES
      and replacements = "[(''property'', ''gap''), (''value'', ''undefined'')]"
      and repl = replaceKey] a c
  have "\<not> includesStr ''css.properties.gap'' ''${'' \<and> \<not> includesStr ''css.properties.gap'' ''undefined''"
    by blast
  then show ?thesis using a b l by (simp add: generatePatterns_def)
qed

text \<open>
  C3 as it is stated fails for a key that is no regular expression: with the key \<open>(\<close> in
  the substitution record, \<open>new RegExp\<close> throws a \<open>SyntaxError\<close> for the group that is not
  closed, and \<open>generatePatterns\<close> returns no list.
\<close>

theorem generatePatterns_throws_counterexample:
  "generatePatterns CSS_PATTERN_TEMPLATES [(''property'', ''gap''), (''('', ''x'')]
     = Thrown SyntaxError"
  by code_simp

section \<open>The dataset index (C4)\<close>

text \<open>
  C4, as the sources have it. After the index is built, the record found under a key is the
  record of the last entry of the dataset, in the order of enumeration, that has the
  baseline status \<open>'high'\<close> or \<open>'low'\<close> and has the key as its feature id or among its
  compat keys; a key that no such entry has is not in the index. An entry whose status is
  \<open>false\<close> or not defined writes nothing.
\<close>

theorem getCompatFeaturesIndex_last_write:
  "map_get (fst (getCompatFeaturesIndex ds None)) k =
     (case find (writesKey k) (rev ds) of None \<Rightarrow> None | Some e \<Rightarrow> entryRecord e)"
  by (simp add: getCompatFeaturesIndex_def Let_def map_get_fold_indexStep split: option.splits)

text \<open>
  The theorem at the small dataset with one more entry that lists a compat key of an
  earlier entry: the key leads to the record of the later entry, the id of the earlier entry
  to its own record.
\<close>

theorem getCompatFeaturesIndex_last_write_witness:
  "map_get (fst (getCompatFeaturesIndex
       (exampleFeatures @
          [(''filter-effects'', \<lparr> entry_name = None, baseline = Some High,
               compat_features = Some [''css.properties.backdrop-filter''] \<rparr>)]) None))
     ''css.properties.backdrop-filter''
     = Some \<lparr> indexStatus = High, featureName = ''filter-effects'', featureId = ''filter-effects'' \<rparr> \<and>
   map_get (fst (getCompatFeaturesIndex
       (exampleFeatures @
          [(''filter-effects'', \<lparr> entry_name = None, baseline = Some High,
               compat_features = Some [''css.properties.backdrop-filter''] \<rparr>)]) None))
     ''backdrop-filter''
     = Some \<lparr> indexStatus = Low, featureName = ''backdrop-filter'', featureId = ''backdrop-filter'' \<rparr>"
proof -
  let ?ds = "exampleFeatures @
          [(''filter-effects'', \<lparr> entry_name = None, baseline = Some High,
               compat_features = Some [''css.properties.backdrop-filter''] \<rparr>)]"
  have a: "(case find (writesKey ''css.properties.backdrop-filter'') (rev ?ds) of
              None \<Rightarrow> None | Some e \<Rightarrow> entryRecord e)
           = Some \<lparr> indexStatus = High, featureName = ''filter-effects'', featureId = ''filter-effects'' \<rparr>"
    by code_simp
  have b: "(case find (writesKey ''backdrop-filter'') (rev ?ds) of
              None \<Rightarrow> None | Some e \<Rightarrow> entryRecord e)
           = Some \<lparr> indexStatus = Low, featureName = ''backdrop-filter'', featureId = ''backdrop-filter'' \<rparr>"
    by code_simp
  show ?thesis
    using getCompatFeaturesIndex_last_write [of ?ds "''css.properties.backdrop-filter''"]
      getCompatFeaturesIndex_last_write [of ?ds "''backdrop-filter''"] a b
    by simp
qed

text \<open>
  C4 as it is stated fails for an entry whose defined status is \<open>false\<close>: the entry
  \<open>anchor-positioning\<close> of the small dataset has the status \<open>false\<close> and the compat key
  \<open>css.properties.anchor-name\<close>, and the index has neither its id nor its compat key.
\<close>

theorem getCompatFeaturesIndex_false_status_counterexample:
  "map_option baseline (map_get exampleFeatures ''anchor-positioning'') = Some (Some NotBaseline) \<and>
   map_option compat_features (map_get exampleFeatures ''anchor-positioning'')
     = Some (Some [''css.properties.anchor-name'']) \<and>
   map_get (fst (getCompatFeaturesIndex exampleFeatures None)) ''anchor-positioning'' = None \<and>
   map_get (fst (getCompatFeaturesIndex exampleFeatures None)) ''css.properties.anchor-name'' = None"
  by code_simp

section \<open>Severity from status (C5)\<close>

text \<open>
  C5. The result that \<open>convertToFeatureResult\<close> makes of a detected feature has the severity
  \<open>error\<close> when its status is \<open>false\<close>, \<open>warn\<close> when it is \<open>'low'\<close> and \<open>info\<close> when it
  is \<open>'high'\<close>; the status is the one the index has for the feature's name, and \<open>false\<close>
  (so the severity \<open>error\<close>) when the index does not have the name.
\<close>

theorem convertToFeatureResult_severity:
  "(status (convertToFeatureResult idx d) = NotBaseline \<longrightarrow>
      severity (convertToFeatureResult idx d) = SevError) \<and>
   (status (convertToFeatureResult idx d) = Low \<longrightarrow>
      severity (convertToFeatureResult idx d) = SevWarn) \<and>
   (status (convertToFeatureResult idx d) = High \<longrightarrow>
      severity (convertToFeatureResult idx d) = SevInfo) \<and>
   (map_get idx (name d) = None \<longrightarrow>
      status (convertToFeatureResult idx d) = NotBaseline \<and>
      severity (convertToFeatureResult idx d) = SevError) \<and>
   (\<forall>r. map_get idx (name d) = Some r \<longrightarrow> status (convertToFeatureResult idx d) = indexStatus r)"
  by (auto simp: convertToFeatureResult_def checkBaselineStatus_def Let_def
        split: BaselineStatus.splits option.splits)

text \<open>
  The theorem at the index of the small dataset, for a feature that is newly available, one
  that is widely available and one that the index does not have.
\<close>

theorem convertToFeatureResult_severity_witness:
  "map_option indexStatus (map_get exampleIndex ''container-queries'') = Some Low \<and>
   severity (convertToFeatureResult exampleIndex (detected ''container-queries'')) = SevWarn \<and>
   map_option indexStatus (map_get exampleIndex ''fetch-api'') = Some High \<and>
   severity (convertToFeatureResult exampleIndex (detected ''fetch-api'')) = SevInfo \<and>
   map_get exampleIndex ''anchor-positioning'' = None \<and>
   status (convertToFeatureResult exampleIndex (detected ''anchor-positioning'')) = NotBaseline \<and>
   severity (convertToFeatureResult exampleIndex (detected ''anchor-positioning'')) = SevError"
proof -
  have n: "\<And>s. name (detected s) = s"
    by (simp add: detected_def)
  have a: "map_get exampleIndex ''container-queries''
           = Some \<lparr> indexStatus = Low, featureName = ''Container queries'',
                    featureId = ''container-queries'' \<rparr>"
    by code_simp
  have b: "map_get exampleIndex ''fetch-api''
           = Some \<lparr> indexStatus = High, featureName = ''Fetch'', featureId = ''fetch-api'' \<rparr>"
    by code_simp
  have c: "map_get exampleIndex ''anchor-positioning'' = None"
    by code_simp
  show ?thesis
    using convertToFeatureResult_severity [of exampleIndex "detected ''container-queries''"]
      convertToFeatureResult_severity [of exampleIndex "detected ''fetch-api''"]
      convertToFeatureResult_severity [of exampleIndex "detected ''anchor-positioning''"]
      a b c
    by (simp add: n)
qed

section \<open>Rules that are off (C6)\<close>

text \<open>
  C6. No result that \<open>applyConfigRules\<close> returns is of a feature whose configured rule is
  \<open>off\<close>, and the same holds behind \<open>applyTargetBaseline\<close>, that is, for the features of
  the result of a file.
\<close>

theorem applyConfigRules_off_absent:
  "(\<forall>f \<in> set (applyConfigRules fs config). rules config (feature f) \<noteq> Some RuleOff) \<and>
   (\<forall>f \<in> set (applyTargetBaseline (applyConfigRules fs config) (targetsBaseline config)).
      rules config (feature f) \<noteq> Some RuleOff)"
proof (intro conjI ballI)
  fix f assume "f \<in> set (applyConfigRules fs config)"
  then show "rules config (feature f) \<noteq> Some RuleOff"
    by (rule applyConfigRules_not_off)
next
  fix f
  assume "f \<in> set (applyTargetBaseline (applyConfigRules fs config) (targetsBaseline config))"
  then obtain g where "g \<in> set (applyConfigRules fs config)" "feature f = feature g"
    using applyTargetBaseline_feature by blast
  then show "rules config (feature f) \<noteq> Some RuleOff"
    using applyConfigRules_not_off by fastforce
qed

text \<open>
  The theorem at three results and a configuration that turns \<open>fetch\<close> off: the result
  for \<open>fetch\<close> is gone.
\<close>

theorem applyConfigRules_off_absent_witness:
  "rules exampleConfig ''fetch'' = Some RuleOff \<and>
   map feature (map (convertToFeatureResult exampleIndex)
                  [detected ''fetch'', detected ''css-grid'', detected ''fetch-api''])
     = [''fetch'', ''css-grid'', ''fetch-api''] \<and>
   map feature (applyConfigRules
                  (map (convertToFeatureResult exampleIndex)
                     [detected ''fetch'', detected ''css-grid'', detected ''fetch-api''])
                  exampleConfig)
     = [''css-grid'', ''fetch-api'']"
proof -
  let ?fs = "map (convertToFeatureResult exampleIndex)
               [detected ''fetch'', detected ''css-grid'', detected ''fetch-api'']"
  have a: "rules exampleConfig ''fetch'' = Some RuleOff"
    by code_simp
  have b: "map feature ?fs = [''fetch'', ''css-grid'', ''fetch-api'']"
    by code_simp
  have c: "map feature (applyConfigRules ?fs exampleConfig) = [''css-grid'', ''fetch-api'']"
    by code_simp
  show ?thesis
    using applyConfigRules_off_absent [of ?fs exampleConfig] a b c by simp
qed

section \<open>Queries before initialisation (C7)\<close>

text \<open>
  C7 at the mapper as the constructor leaves it. Each of the eight queries returns no match,
  and none throws; \<open>mapCSSProperty\<close> writes the warning, and the seven other queries
  write nothing.
\<close>

theorem uninitialized_queries_evaluated:
  "\<not> initialized newWebFeaturesMapper \<and>
   mapCSSProperty newWebFeaturesMapper ''gap'' = (None, [''WebFeaturesMapper not initialized'']) \<and>
   mapCSSSelector newWebFeaturesMapper '':has(a)'' = ([], []) \<and>
   mapCSSAtRule newWebFeaturesMapper ''container'' = (None, []) \<and>
   mapJSProperty newWebFeaturesMapper ''window.fetch'' = (None, []) \<and>
   mapJSMethod newWebFeaturesMapper ''fetch(url)'' = (None, []) \<and>
   mapJSConstructor newWebFeaturesMapper ''new IntersectionObserver(cb)'' = (None, []) \<and>
   mapHTMLElement newWebFeaturesMapper ''dialog'' = (None, []) \<and>
   mapHTMLAttribute newWebFeaturesMapper ''inert'' = (None, [])"
  by (simp add: newWebFeaturesMapper_def mapCSSProperty_def mapCSSSelector_def mapCSSAtRule_def
        mapJSProperty_def mapJSMethod_def mapJSConstructor_def mapHTMLElement_def
        mapHTMLAttribute_def)

section \<open>An input error in a batch (C8)\<close>

text \<open>
  C8 at a batch of two files. When the first file does not exist, or is larger than the
  maximum, the command ends with that error: the second file, which alone is checked and
  reported, is not processed, and nothing is reported.
\<close>

theorem execute_input_error_evaluated:
  "exampleFiles ''missing.css'' = None \<and>
   execute (parseFile exampleFiles exampleWalker exampleIndex) exampleConfig False
     [''missing.css'', ''ok.css''] = Failed (FileSystemError ''missing.css'') \<and>
   execute (parseFile exampleFiles exampleWalker exampleIndex) exampleConfig False
     [''huge.css'', ''ok.css''] = Failed (FileSizeError ''huge.css'' 10485761 10485760) \<and>
   execute (parseFile exampleFiles exampleWalker exampleIndex) exampleConfig False [''ok.css'']
     = Reported
         [\<lparr> checkedFile = ''ok.css'',
            features = [convertToFeatureResult exampleIndex (detected ''container-queries'')],
            errors = 0, warnings = 1, passed = True \<rparr>] 0"
  by code_simp

section \<open>Two callers of the factory (C9)\<close>

text \<open>
  C9 at two callers that one job starts one after the other. The body of \<open>initialize\<close>
  runs once. The second caller finds \<open>mapperInstance\<close> set and gets the mapper at once,
  before the first caller's initialisation has reached its end: the flag \<open>initialized\<close> of
  the mapper it receives is false. The first caller receives the mapper with the flag true.
  No job is left.
\<close>

theorem getWebFeaturesMapper_two_callers_evaluated:
  "initializeRuns (callersInOneJob exampleFeatures [1, 2] 10) = 1 \<and>
   jobs (callersInOneJob exampleFeatures [1, 2] 10) = [] \<and>
   receivedBy (callersInOneJob exampleFeatures [1, 2] 10) = [(2, Got False), (1, Got True)] \<and>
   mapperInstance (callersInOneJob exampleFeatures [1, 2] 10) = Some exampleMapper"
  by code_simp

section \<open>No duplicates in the features of a selector (C10)\<close>

text \<open>
  C10. The list that \<open>mapCSSSelector\<close> returns has every feature id at most once.
\<close>

theorem mapCSSSelector_distinct: "distinct (fst (mapCSSSelector m selector))"
  by (simp add: mapCSSSelector_def Let_def setSpread_distinct)

text \<open>
  The theorem at a text that two patterns of the enhanced table with the same feature id
  match: the id is in the list once.
\<close>

theorem mapCSSSelector_distinct_witness:
  "map compatFeature
     (filter (patternTests ''<dialog::backdrop'') (concat (map snd (enhancedMappings exampleMapper))))
     = [''dialog'', ''dialog''] \<and>
   fst (mapCSSSelector exampleMapper ''<dialog::backdrop'') = [''dialog'']"
proof -
  have a: "map compatFeature
     (filter (patternTests ''<dialog::backdrop'') (concat (map snd (enhancedMappings exampleMapper))))
     = [''dialog'', ''dialog'']"
    by code_simp
  have b: "fst (mapCSSSelector exampleMapper ''<dialog::backdrop'') = [''dialog'']"
    by code_simp
  show ?thesis
    using mapCSSSelector_distinct [of exampleMapper "''<dialog::backdrop''"] a b by simp
qed

end
